theory Spec2Isabelle
  imports Main "HOL-Library.Word"
begin

section \<open>The crypto module\<close>

text \<open>
  The crypto utilities are the first part of \<open>src/shared/crypto.js\<close> (up to
  \<open>decryptSurvey\<close>); the database operations and the worker follow in the same
  file and are modelled in the next two sections.

  The module works on byte arrays (\<open>Uint8Array\<close>) and on plain JavaScript arrays of
  numbers. A \<open>Uint8Array\<close> is a list of 8-bit words; a plain array of numbers is a list
  of naturals. \<open>Array.from\<close> reads every byte as a number, \<open>new Uint8Array(array)\<close>
  stores every number modulo 256.
\<close>

type_synonym bytes = "8 word list"

definition Array_from :: "bytes \<Rightarrow> nat list" where
  "Array_from u = map unat u"

definition new_Uint8Array :: "nat list \<Rightarrow> bytes" where
  "new_Uint8Array a = map of_nat a"

text \<open>
  Every \<open>throw new Error(msg)\<close> is the value \<open>Error msg\<close>; the libraries the module
  calls raise errors of their own: a rejected \<open>argon2.hash\<close> promise carries a numeric
  code, \<open>JSON.parse\<close> throws a \<open>SyntaxError\<close>, tweetnacl throws plain \<open>Error\<close>s.
\<close>

datatype error = Error string | Argon2Error int | SyntaxError

text \<open>
  The libraries are the module-level handles \<open>nacl\<close> and \<open>argon2\<close> set by
  \<open>initCrypto\<close>, together with the platform's \<open>crypto.subtle\<close>, \<open>JSON\<close>,
  \<open>TextEncoder\<close> and \<open>TextDecoder\<close>. None of them is code of this repository; the
  model takes them as one record of functions, the handles after \<open>initCrypto\<close> has run.
  The type \<open>'v\<close> is the type of structured values handed to \<open>JSON.stringify\<close>.
  \<open>secretbox_open\<close> returns \<open>None\<close> where tweetnacl returns \<open>null\<close>.
\<close>

record 'v provider =
  argon2_hash :: "bytes \<Rightarrow> bytes \<Rightarrow> nat \<Rightarrow> nat \<Rightarrow> nat \<Rightarrow> nat \<Rightarrow> error + bytes"
  secretbox :: "bytes \<Rightarrow> bytes \<Rightarrow> bytes \<Rightarrow> error + bytes"
  secretbox_open :: "bytes \<Rightarrow> bytes \<Rightarrow> bytes \<Rightarrow> error + bytes option"
  subtle_digest :: "bytes \<Rightarrow> bytes"
  JSON_stringify :: "'v \<Rightarrow> string"
  JSON_parse :: "string \<Rightarrow> error + 'v"
  TextEncoder_encode :: "string \<Rightarrow> bytes"
  TextDecoder_decode :: "bytes \<Rightarrow> string"

text \<open>
  What the module does besides computing: it draws random bytes, reads the clock and
  calls the cryptographic libraries. The state holds the stream of bytes the random
  source will deliver with the number already drawn, the readings the clock will give with
  the number already taken, and the log of the library calls made so far, oldest first.
\<close>

datatype call =
    Argon2Hash bytes bytes
  | Secretbox bytes bytes bytes
  | SecretboxOpen bytes bytes bytes
  | Digest bytes

record world =
  entropy :: "nat \<Rightarrow> 8 word"
  drawn :: nat
  clock :: "nat \<Rightarrow> nat"
  ticks :: nat
  calls :: "call list"

definition logged :: "call \<Rightarrow> world \<Rightarrow> world" where
  "logged c w = w\<lparr>calls := calls w @ [c]\<rparr>"

text \<open>
  \<open>randomBytes(length)\<close> asks \<open>nacl.randomBytes\<close> or, without it,
  \<open>crypto.getRandomValues\<close>: either way it returns the next \<open>length\<close> bytes of
  the random source. \<open>Date.now()\<close> takes the next reading of the clock, a number of
  milliseconds. \<open>nacl.secretbox.nonceLength\<close> is the constant 24.
\<close>

definition randomBytes :: "nat \<Rightarrow> world \<Rightarrow> bytes \<times> world" where
  "randomBytes n w = (map (entropy w) [drawn w ..< drawn w + n], w\<lparr>drawn := drawn w + n\<rparr>)"

definition Date_now :: "world \<Rightarrow> nat \<times> world" where
  "Date_now w = (clock w (ticks w), w\<lparr>ticks := Suc (ticks w)\<rparr>)"

definition nonceLength :: nat where
  "nonceLength = 24"

subsection \<open>deriveKey\<close>

text \<open>
  The arguments of \<open>argon2_hash\<close> are the fields \<open>pass\<close>, \<open>salt\<close>, \<open>time\<close>,
  \<open>mem\<close>, \<open>hashLen\<close> and \<open>parallelism\<close> of the call; the type is always Argon2i.
  A call is logged when it is made, whether it returns or throws.
\<close>

definition deriveKey :: "'v provider \<Rightarrow> string \<Rightarrow> bytes \<Rightarrow> world \<Rightarrow> (error + bytes) \<times> world" where
  "deriveKey cp password salt w =
     (let passwordBytes = TextEncoder_encode cp password;
          opslimit = 3;
          memlimit = 262144;
          w1 = logged (Argon2Hash passwordBytes salt) w
      in case argon2_hash cp passwordBytes salt opslimit memlimit 32 1 of
           Inl e \<Rightarrow> (Inl e, w1)
         | Inr hash \<Rightarrow> (Inr hash, w1))"

subsection \<open>encryptData and decryptData\<close>

definition encryptData :: "'v provider \<Rightarrow> 'v \<Rightarrow> bytes \<Rightarrow> world \<Rightarrow> (error + bytes) \<times> world" where
  "encryptData cp data key w =
     (let message = TextEncoder_encode cp (JSON_stringify cp data);
          (nonce, w1) = randomBytes nonceLength w;
          w2 = logged (Secretbox message nonce key) w1
      in case secretbox cp message nonce key of
           Inl e \<Rightarrow> (Inl e, w2)
         | Inr ciphertext \<Rightarrow> (Inr (nonce @ ciphertext), w2))"

definition decryptData :: "'v provider \<Rightarrow> bytes \<Rightarrow> bytes \<Rightarrow> world \<Rightarrow> (error + 'v) \<times> world" where
  "decryptData cp encryptedData key w =
     (if length encryptedData < nonceLength
      then (Inl (Error ''Invalid encrypted data format''), w)
      else
        let nonce = take nonceLength encryptedData;
            ciphertext = drop nonceLength encryptedData;
            w1 = logged (SecretboxOpen ciphertext nonce key) w
        in case secretbox_open cp ciphertext nonce key of
             Inl e \<Rightarrow> (Inl e, w1)
           | Inr None \<Rightarrow>
               (Inl (Error ''Decryption failed - incorrect password or corrupted data''), w1)
           | Inr (Some decrypted) \<Rightarrow>
               (case JSON_parse cp (TextDecoder_decode cp decrypted) of
                  Inl e \<Rightarrow> (Inl e, w1)
                | Inr v \<Rightarrow> (Inr v, w1)))"

subsection \<open>createKeyHash\<close>

text \<open>
  \<open>n.toString(r)\<close> for a natural number \<open>n\<close> and a radix \<open>r\<close> from 2 to 36: the
  digits of \<open>n\<close> in base \<open>r\<close>, most significant first, in lower case. The module
  calls it with radix 16 on a byte, the worker with radix 36 on the clock reading.
  \<open>s.padStart(n, c)\<close> puts copies of \<open>c\<close> in front of \<open>s\<close> up to the length
  \<open>n\<close>.
\<close>

definition digit_chars :: string where
  "digit_chars = ''0123456789abcdefghijklmnopqrstuvwxyz''"

function toString_radix :: "nat \<Rightarrow> nat \<Rightarrow> string" where
  "toString_radix r n =
     (if r < 2 \<or> n < r then [digit_chars ! n]
      else toString_radix r (n div r) @ [digit_chars ! (n mod r)])"
  by pat_completeness auto
termination
  by (relation "measure (\<lambda>(r, n). n)") auto

declare toString_radix.simps [simp del]

definition padStart :: "nat \<Rightarrow> char \<Rightarrow> string \<Rightarrow> string" where
  "padStart n c s = replicate (n - length s) c @ s"

text \<open>
  \<open>createKeyHash\<close> digests the key and writes every byte of the digest as two
  hexadecimal digits. \<open>fingerprint\<close> is the string it computes; \<open>createKeyHash\<close>
  returns it and records the call of the digest.
\<close>

definition fingerprint :: "'v provider \<Rightarrow> bytes \<Rightarrow> string" where
  "fingerprint cp key =
     (let hashBuffer = subtle_digest cp key
      in concat (map (\<lambda>b. padStart 2 (CHR ''0'') (toString_radix 16 (unat b))) hashBuffer))"

definition createKeyHash :: "'v provider \<Rightarrow> bytes \<Rightarrow> world \<Rightarrow> string \<times> world" where
  "createKeyHash cp key w = (fingerprint cp key, logged (Digest key) w)"

subsection \<open>generateUlid\<close>

definition chars :: string where
  "chars = ''0123456789ABCDEFGHJKMNPQRSTVWXYZ''"

text \<open>
  The first loop of \<open>generateUlid\<close> runs a fixed number of times, putting a symbol in
  front of the result and dividing \<open>temp\<close> by 32; \<open>Date.now()\<close> is a count of
  milliseconds, a natural number, so \<open>%\<close> and \<open>Math.floor\<close> of the quotient are
  \<open>mod\<close> and \<open>div\<close>.
\<close>

fun encode_timestamp :: "nat \<Rightarrow> nat \<Rightarrow> string \<Rightarrow> string" where
  "encode_timestamp 0 temp result = result"
| "encode_timestamp (Suc i) temp result =
     encode_timestamp i (temp div 32) (chars ! (temp mod 32) # result)"

text \<open>
  The second loop appends one symbol for every byte of the randomness and a second one
  for every byte but the last (\<open>i < randomness.length - 1\<close>).
\<close>

fun encode_randomness :: "bytes \<Rightarrow> string \<Rightarrow> string" where
  "encode_randomness [] result = result"
| "encode_randomness (byte # rest) result =
     (let result1 = result @ [chars ! (unat byte mod 32)];
          result2 = (if rest \<noteq> [] then result1 @ [chars ! (unat byte div 32)] else result1)
      in encode_randomness rest result2)"

definition generateUlid :: "world \<Rightarrow> string \<times> world" where
  "generateUlid w =
     (let (timestamp, w1) = Date_now w;
          (randomness, w2) = randomBytes 10 w1;
          result = encode_timestamp 10 timestamp [];
          result' = encode_randomness randomness result
      in (take 26 result', w2))"

subsection \<open>validatePassword\<close>

record validation =
  valid :: bool
  message :: "string option"

definition validatePassword :: "string \<Rightarrow> validation" where
  "validatePassword password =
     (if password = [] \<or> length password < 8
      then \<lparr>valid = False, message = Some ''Password must be at least 8 characters long''\<rparr>
      else if length password > 128
      then \<lparr>valid = False, message = Some ''Password must be less than 128 characters''\<rparr>
      else \<lparr>valid = True, message = None\<rparr>)"

subsection \<open>createEncryptedSurvey and decryptSurvey\<close>

text \<open>
  The package \<open>createEncryptedSurvey\<close> returns, with its fields \<open>id\<close>, \<open>salt\<close>,
  \<open>encryptedData\<close>, \<open>keyHash\<close> and \<open>createdAt\<close>; the salt and the encrypted data are
  plain arrays of numbers.
\<close>

record encrypted_survey =
  es_id :: string
  es_salt :: "nat list"
  es_encryptedData :: "nat list"
  es_keyHash :: string
  es_createdAt :: nat

definition createEncryptedSurvey ::
  "'v provider \<Rightarrow> 'v \<Rightarrow> string \<Rightarrow> world \<Rightarrow> (error + encrypted_survey) \<times> world" where
  "createEncryptedSurvey cp surveyData password w =
     (let validation = validatePassword password in
      if \<not> valid validation then (Inl (Error (case message validation of Some m \<Rightarrow> m | None \<Rightarrow> [])), w)
      else
        let (salt, w1) = randomBytes 16 w in
        case deriveKey cp password salt w1 of
          (Inl e, w2) \<Rightarrow> (Inl e, w2)
        | (Inr key, w2) \<Rightarrow>
            (case encryptData cp surveyData key w2 of
               (Inl e, w3) \<Rightarrow> (Inl e, w3)
             | (Inr encryptedData, w3) \<Rightarrow>
                 let (keyHash, w4) = createKeyHash cp key w3;
                     (ulid, w5) = generateUlid w4;
                     (now, w6) = Date_now w5
                 in (Inr \<lparr>es_id = ulid,
                          es_salt = Array_from salt,
                          es_encryptedData = Array_from encryptedData,
                          es_keyHash = keyHash,
                          es_createdAt = now\<rparr>, w6)))"

text \<open>The object \<open>{ surveyData, key }\<close> that \<open>decryptSurvey\<close> returns.\<close>

record 'v decrypted_survey =
  surveyData :: 'v
  key :: bytes

definition decryptSurvey ::
  "'v provider \<Rightarrow> encrypted_survey \<Rightarrow> string \<Rightarrow> world \<Rightarrow> (error + 'v decrypted_survey) \<times> world" where
  "decryptSurvey cp encryptedSurvey password w =
     (let salt = es_salt encryptedSurvey;
          encryptedData = es_encryptedData encryptedSurvey;
          keyHash = es_keyHash encryptedSurvey
      in case deriveKey cp password (new_Uint8Array salt) w of
           (Inl e, w1) \<Rightarrow> (Inl e, w1)
         | (Inr k, w1) \<Rightarrow>
             let (computedHash, w2) = createKeyHash cp k w1 in
             if computedHash \<noteq> keyHash then (Inl (Error ''Invalid password''), w2)
             else
               (case decryptData cp (new_Uint8Array encryptedData) k w2 of
                  (Inl e, w3) \<Rightarrow> (Inl e, w3)
                | (Inr v, w3) \<Rightarrow> (Inr \<lparr>surveyData = v, key = k\<rparr>, w3)))"

section \<open>The database module\<close>

text \<open>
  The D1 database holds the two tables of \<open>schemas/001-initial.sql\<close>, with the column
  \<open>analysis_id\<close> that \<open>schemas/002-add-analysis-id.sql\<close> adds (nullable: surveys
  created before the migration have none). A table is the list of its rows; \<open>first()\<close>
  of a \<open>SELECT\<close> is the first row that satisfies the \<open>WHERE\<close> clause, or null.
\<close>

record survey_row =
  row_id :: string
  row_analysis_id :: "string option"
  row_title :: string
  row_description :: "string option"
  row_questions :: bytes
  row_salt :: bytes
  row_created_at :: nat
  row_expires_at :: "nat option"
  row_max_responses :: "nat option"
  row_creator_key_hash :: string

record response_row =
  resp_id :: string
  resp_survey_id :: string
  resp_answers :: bytes
  resp_submitted_at :: nat

record database =
  surveys :: "survey_row list"
  responses :: "response_row list"

text \<open>
  The object that \<open>getSurvey\<close> and \<open>getSurveyByAnalysisId\<close> build from a row; only the
  second one sets \<open>analysisId\<close>.
\<close>

record survey =
  sv_id :: string
  sv_analysisId :: "string option"
  sv_title :: string
  sv_description :: "string option"
  sv_questions :: "nat list"
  sv_salt :: "nat list"
  sv_createdAt :: nat
  sv_expiresAt :: "nat option"
  sv_maxResponses :: "nat option"
  sv_creatorKeyHash :: string

definition getSurvey :: "database \<Rightarrow> string \<Rightarrow> survey option" where
  "getSurvey db surveyId =
     (case find (\<lambda>r. row_id r = surveyId) (surveys db) of
        None \<Rightarrow> None
      | Some result \<Rightarrow>
          Some \<lparr>sv_id = row_id result,
                sv_analysisId = None,
                sv_title = row_title result,
                sv_description = row_description result,
                sv_questions = Array_from (row_questions result),
                sv_salt = Array_from (row_salt result),
                sv_createdAt = row_created_at result,
                sv_expiresAt = row_expires_at result,
                sv_maxResponses = row_max_responses result,
                sv_creatorKeyHash = row_creator_key_hash result\<rparr>)"

definition getSurveyByAnalysisId :: "database \<Rightarrow> string \<Rightarrow> survey option" where
  "getSurveyByAnalysisId db analysisId =
     (case find (\<lambda>r. row_analysis_id r = Some analysisId) (surveys db) of
        None \<Rightarrow> None
      | Some result \<Rightarrow>
          Some \<lparr>sv_id = row_id result,
                sv_analysisId = row_analysis_id result,
                sv_title = row_title result,
                sv_description = row_description result,
                sv_questions = Array_from (row_questions result),
                sv_salt = Array_from (row_salt result),
                sv_createdAt = row_created_at result,
                sv_expiresAt = row_expires_at result,
                sv_maxResponses = row_max_responses result,
                sv_creatorKeyHash = row_creator_key_hash result\<rparr>)"

text \<open>The objects \<open>{ id, answers, submittedAt }\<close> of a response listing.\<close>

record response =
  rv_id :: string
  rv_answers :: "nat list"
  rv_submittedAt :: nat

definition response_of_row :: "response_row \<Rightarrow> response" where
  "response_of_row r =
     \<lparr>rv_id = resp_id r, rv_answers = Array_from (resp_answers r),
      rv_submittedAt = resp_submitted_at r\<rparr>"

text \<open>
  In this module every exception is an \<open>Error\<close> with a message, and the worker's
  handlers look at the message only: \<open>Inl msg\<close> stands for \<open>throw new Error(msg)\<close>.

  \<open>ORDER BY submitted_at\<close> sorts the selected rows and leaves rows with equal
  \<open>submitted_at\<close> in the order of their insertion, ascending and descending alike.
\<close>

definition order_by_asc :: "('a \<Rightarrow> nat) \<Rightarrow> 'a list \<Rightarrow> 'a list" where
  "order_by_asc f rows = sort_key f rows"

definition order_by_desc :: "('a \<Rightarrow> nat) \<Rightarrow> 'a list \<Rightarrow> 'a list" where
  "order_by_desc f rows = rev (sort_key f (rev rows))"

definition getSurveyResponsesByAnalysisId ::
  "database \<Rightarrow> string \<Rightarrow> string \<Rightarrow> string + response list" where
  "getSurveyResponsesByAnalysisId db analysisId creatorKeyHash =
     (case getSurveyByAnalysisId db analysisId of
        None \<Rightarrow> Inl ''Survey not found''
      | Some survey \<Rightarrow>
          if sv_creatorKeyHash survey \<noteq> creatorKeyHash
          then Inl ''Unauthorized - incorrect creator key''
          else Inr (map response_of_row
                 (order_by_desc resp_submitted_at
                    (filter (\<lambda>r. resp_survey_id r = sv_id survey) (responses db)))))"

definition getSurveyResponses ::
  "database \<Rightarrow> string \<Rightarrow> string \<Rightarrow> string + response list" where
  "getSurveyResponses db surveyId creatorKeyHash =
     (case getSurvey db surveyId of
        None \<Rightarrow> Inl ''Survey not found''
      | Some survey \<Rightarrow>
          if sv_creatorKeyHash survey \<noteq> creatorKeyHash
          then Inl ''Unauthorized - incorrect creator key''
          else Inr (map response_of_row
                 (order_by_asc resp_submitted_at
                    (filter (\<lambda>r. resp_survey_id r = surveyId) (responses db)))))"

definition getResponseCount :: "database \<Rightarrow> string \<Rightarrow> nat" where
  "getResponseCount db surveyId =
     length (filter (\<lambda>r. resp_survey_id r = surveyId) (responses db))"

text \<open>
  The statistics object. \<open>survey.expiresAt ? \<dots> : false\<close> and
  \<open>survey.maxResponses ? \<dots> : false\<close> test a nullable number for truth: null and 0
  both count as false. \<open>now\<close> is the reading of \<open>Date.now()\<close>.
\<close>

record stats =
  st_surveyId :: string
  st_analysisId :: "string option"
  st_responseCount :: nat
  st_createdAt :: nat
  st_expiresAt :: "nat option"
  st_maxResponses :: "nat option"
  st_isExpired :: bool
  st_isAtLimit :: bool

definition truthy :: "nat option \<Rightarrow> bool" where
  "truthy x = (case x of None \<Rightarrow> False | Some n \<Rightarrow> n \<noteq> 0)"

definition getSurveyStatsByAnalysisId ::
  "database \<Rightarrow> string \<Rightarrow> string \<Rightarrow> nat \<Rightarrow> string + stats" where
  "getSurveyStatsByAnalysisId db analysisId creatorKeyHash now =
     (case getSurveyByAnalysisId db analysisId of
        None \<Rightarrow> Inl ''Survey not found''
      | Some survey \<Rightarrow>
          if sv_creatorKeyHash survey \<noteq> creatorKeyHash
          then Inl ''Unauthorized - incorrect creator key''
          else
            let responseCount = getResponseCount db (sv_id survey)
            in Inr \<lparr>st_surveyId = sv_id survey,
                     st_analysisId = sv_analysisId survey,
                     st_responseCount = responseCount,
                     st_createdAt = sv_createdAt survey,
                     st_expiresAt = sv_expiresAt survey,
                     st_maxResponses = sv_maxResponses survey,
                     st_isExpired = (if truthy (sv_expiresAt survey)
                                     then now > the (sv_expiresAt survey) else False),
                     st_isAtLimit = (if truthy (sv_maxResponses survey)
                                     then responseCount \<ge> the (sv_maxResponses survey)
                                     else False)\<rparr>)"

definition getSurveyStats ::
  "database \<Rightarrow> string \<Rightarrow> string \<Rightarrow> nat \<Rightarrow> string + stats" where
  "getSurveyStats db surveyId creatorKeyHash now =
     (case getSurvey db surveyId of
        None \<Rightarrow> Inl ''Survey not found''
      | Some survey \<Rightarrow>
          if sv_creatorKeyHash survey \<noteq> creatorKeyHash
          then Inl ''Unauthorized - incorrect creator key''
          else
            let responseCount = getResponseCount db surveyId
            in Inr \<lparr>st_surveyId = surveyId,
                     st_analysisId = None,
                     st_responseCount = responseCount,
                     st_createdAt = sv_createdAt survey,
                     st_expiresAt = sv_expiresAt survey,
                     st_maxResponses = sv_maxResponses survey,
                     st_isExpired = (if truthy (sv_expiresAt survey)
                                     then now > the (sv_expiresAt survey) else False),
                     st_isAtLimit = (if truthy (sv_maxResponses survey)
                                     then responseCount \<ge> the (sv_maxResponses survey)
                                     else False)\<rparr>)"

text \<open>
  A \<open>DELETE\<close> statement is run with \<open>run()\<close>. On the D1 binding the object it
  resolves to has the fields \<open>success\<close>, \<open>meta\<close> and \<open>results\<close>, and the
  number of rows the statement removed is \<open>meta.changes\<close>. The code reads the property
  \<open>changes\<close> of the object itself, which the object does not have: the value is
  \<open>undefined\<close>, here \<open>None\<close>.
\<close>

record run_result =
  run_success :: bool
  run_changes :: "nat option"
  run_meta_changes :: nat

definition run_delete_responses :: "string \<Rightarrow> database \<Rightarrow> run_result \<times> database" where
  "run_delete_responses surveyId db =
     (\<lparr>run_success = True, run_changes = None,
       run_meta_changes = length (filter (\<lambda>r. resp_survey_id r = surveyId) (responses db))\<rparr>,
      db\<lparr>responses := filter (\<lambda>r. resp_survey_id r \<noteq> surveyId) (responses db)\<rparr>)"

definition run_delete_survey :: "string \<Rightarrow> database \<Rightarrow> run_result \<times> database" where
  "run_delete_survey surveyId db =
     (\<lparr>run_success = True, run_changes = None,
       run_meta_changes = length (filter (\<lambda>r. row_id r = surveyId) (surveys db))\<rparr>,
      db\<lparr>surveys := filter (\<lambda>r. row_id r \<noteq> surveyId) (surveys db)\<rparr>)"

text \<open>
  Deleting returns the object \<open>{ deletedSurvey, deletedResponses }\<close> and the database
  after the two \<open>DELETE\<close> statements. \<open>deletedResponses\<close> is the \<open>changes\<close> read
  from the first result, and the test \<open>surveyResult.changes === 0\<close> compares the
  \<open>changes\<close> read from the second with 0.
\<close>

record deletion =
  deletedSurvey :: bool
  deletedResponses :: "nat option"

definition deleteSurveyByAnalysisId ::
  "database \<Rightarrow> string \<Rightarrow> string \<Rightarrow> (string + deletion) \<times> database" where
  "deleteSurveyByAnalysisId db analysisId creatorKeyHash =
     (case find (\<lambda>r. row_analysis_id r = Some analysisId) (surveys db) of
        None \<Rightarrow> (Inl ''Survey not found'', db)
      | Some survey \<Rightarrow>
          if row_creator_key_hash survey \<noteq> creatorKeyHash
          then (Inl ''Unauthorized - only survey creator can delete'', db)
          else
            let (responseResult, db1) = run_delete_responses (row_id survey) db;
                (surveyResult, db2) = run_delete_survey (row_id survey) db1
            in if run_changes surveyResult = Some 0
               then (Inl ''Survey not found or already deleted'', db2)
               else (Inr \<lparr>deletedSurvey = True,
                          deletedResponses = run_changes responseResult\<rparr>, db2))"

definition deleteSurvey ::
  "database \<Rightarrow> string \<Rightarrow> string \<Rightarrow> (string + deletion) \<times> database" where
  "deleteSurvey db surveyId creatorKeyHash =
     (case find (\<lambda>r. row_id r = surveyId) (surveys db) of
        None \<Rightarrow> (Inl ''Survey not found'', db)
      | Some survey \<Rightarrow>
          if row_creator_key_hash survey \<noteq> creatorKeyHash
          then (Inl ''Unauthorized - only survey creator can delete'', db)
          else
            let (responseResult, db1) = run_delete_responses surveyId db;
                (surveyResult, db2) = run_delete_survey surveyId db1
            in if run_changes surveyResult = Some 0
               then (Inl ''Survey not found or already deleted'', db2)
               else (Inr \<lparr>deletedSurvey = True,
                          deletedResponses = run_changes responseResult\<rparr>, db2))"

section \<open>The worker (the request handlers and the router)\<close>

subsection \<open>generateId\<close>






subsection \<open>Responses\<close>

text \<open>
  A handler answers with a status and a JSON body: \<open>{ success: false, error }\<close> from
  \<open>errorResponse\<close>, or \<open>{ success: true, data }\<close> from \<open>apiResponse\<close>, where the
  data is the survey shell, a listing with statistics, or the result of a deletion.
\<close>

record survey_shell =
  sh_id :: string
  sh_salt :: "nat list"
  sh_encryptedData :: "nat list"
  sh_keyHash :: string
  sh_createdAt :: nat
  sh_expiresAt :: "nat option"
  sh_maxResponses :: "nat option"

datatype body =
    Failure string
  | SurveyData survey_shell
  | ResponsesData "response list" stats
  | DeletionData deletion

record http_response =
  status :: nat
  body :: body

definition apiResponse :: "body \<Rightarrow> nat \<Rightarrow> http_response" where
  "apiResponse data st = \<lparr>status = st, body = data\<rparr>"

definition errorResponse :: "string \<Rightarrow> nat \<Rightarrow> http_response" where
  "errorResponse msg st = apiResponse (Failure msg) st"

text \<open>\<open>s.includes(t)\<close>: \<open>t\<close> occurs in \<open>s\<close>.\<close>

fun includes_str :: "string \<Rightarrow> string \<Rightarrow> bool" where
  "includes_str [] t = (t = [])"
| "includes_str (c # s) t = (take (length t) (c # s) = t \<or> includes_str s t)"

subsection \<open>The handlers\<close>

definition shell_of :: "survey \<Rightarrow> survey_shell" where
  "shell_of survey =
     \<lparr>sh_id = sv_id survey,
      sh_salt = sv_salt survey,
      sh_encryptedData = sv_questions survey,
      sh_keyHash = sv_creatorKeyHash survey,
      sh_createdAt = sv_createdAt survey,
      sh_expiresAt = sv_expiresAt survey,
      sh_maxResponses = sv_maxResponses survey\<rparr>"

definition handleGetSurvey :: "string \<Rightarrow> database \<Rightarrow> http_response" where
  "handleGetSurvey surveyId db =
     (case getSurvey db surveyId of
        None \<Rightarrow> errorResponse ''Survey not found'' 404
      | Some survey \<Rightarrow> apiResponse (SurveyData (shell_of survey)) 200)"

definition handleGetSurveyByAnalysisId :: "string \<Rightarrow> database \<Rightarrow> http_response" where
  "handleGetSurveyByAnalysisId analysisId db =
     (case getSurveyByAnalysisId db analysisId of
        None \<Rightarrow> errorResponse ''Survey not found'' 404
      | Some survey \<Rightarrow> apiResponse (SurveyData (shell_of survey)) 200)"

text \<open>
  The creator-only handlers read the query parameter \<open>keyHash\<close>
  (\<open>url.searchParams.get\<close>: null when absent); \<open>!keyHash\<close> holds for null and for the
  empty string. Their \<open>catch\<close> turns an exception into a 401 or a 500 by its message.
\<close>

definition missing :: "string option \<Rightarrow> bool" where
  "missing keyHash = (case keyHash of None \<Rightarrow> True | Some h \<Rightarrow> h = [])"

definition handleGetResponses :: "string \<Rightarrow> string option \<Rightarrow> nat \<Rightarrow> database \<Rightarrow> http_response" where
  "handleGetResponses surveyId keyHash now db =
     (if missing keyHash then errorResponse ''Missing authorization key hash'' 401
      else
        let caught = (\<lambda>msg. if includes_str msg ''Unauthorized'' then errorResponse msg 401
                            else errorResponse msg 500)
        in case getSurveyResponses db surveyId (the keyHash) of
             Inl msg \<Rightarrow> caught msg
           | Inr rs \<Rightarrow>
               (case getSurveyStats db surveyId (the keyHash) now of
                  Inl msg \<Rightarrow> caught msg
                | Inr st \<Rightarrow> apiResponse (ResponsesData rs st) 200))"

definition handleGetResponsesByAnalysisId ::
  "string \<Rightarrow> string option \<Rightarrow> nat \<Rightarrow> database \<Rightarrow> http_response" where
  "handleGetResponsesByAnalysisId analysisId keyHash now db =
     (if missing keyHash then errorResponse ''Missing authorization key hash'' 401
      else
        let caught = (\<lambda>msg. if includes_str msg ''Unauthorized'' then errorResponse msg 401
                            else errorResponse msg 500)
        in case getSurveyResponsesByAnalysisId db analysisId (the keyHash) of
             Inl msg \<Rightarrow> caught msg
           | Inr rs \<Rightarrow>
               (case getSurveyStatsByAnalysisId db analysisId (the keyHash) now of
                  Inl msg \<Rightarrow> caught msg
                | Inr st \<Rightarrow> apiResponse (ResponsesData rs st) 200))"

definition handleDeleteSurveyByAnalysisId ::
  "string \<Rightarrow> string option \<Rightarrow> database \<Rightarrow> http_response \<times> database" where
  "handleDeleteSurveyByAnalysisId analysisId keyHash db =
     (if missing keyHash then (errorResponse ''Missing authorization key hash'' 401, db)
      else
        case deleteSurveyByAnalysisId db analysisId (the keyHash) of
          (Inl msg, db') \<Rightarrow>
            (if includes_str msg ''Unauthorized'' \<or> includes_str msg ''not found''
             then (errorResponse msg 401, db') else (errorResponse msg 500, db'))
        | (Inr result, db') \<Rightarrow> (apiResponse (DeletionData result) 200, db'))"

definition handleDeleteSurvey ::
  "string \<Rightarrow> string option \<Rightarrow> database \<Rightarrow> http_response \<times> database" where
  "handleDeleteSurvey surveyId keyHash db =
     (if missing keyHash then (errorResponse ''Missing authorization key hash'' 401, db)
      else
        case deleteSurvey db surveyId (the keyHash) of
          (Inl msg, db') \<Rightarrow>
            (if includes_str msg ''Unauthorized'' \<or> includes_str msg ''not found''
             then (errorResponse msg 401, db') else (errorResponse msg 500, db'))
        | (Inr result, db') \<Rightarrow> (apiResponse (DeletionData result) 200, db'))"

subsection \<open>The router\<close>

text \<open>
  \<open>handleRequest\<close> tries its routes in order. A route with an identifier is a regular
  expression \<open>^prefix([a-zA-Z0-9]+)suffix$\<close>: the path starts with the prefix, ends
  with the suffix, and what lies between is a non-empty run of letters and digits, the
  identifier handed to the handler.
\<close>

definition alnum :: "char \<Rightarrow> bool" where
  "alnum c =
     (c \<in> set ''abcdefghijklmnopqrstuvwxyzABCDEFGHIJKLMNOPQRSTUVWXYZ0123456789'')"

definition startsWith :: "string \<Rightarrow> string \<Rightarrow> bool" where
  "startsWith s t = (take (length t) s = t)"

definition match_id :: "string \<Rightarrow> string \<Rightarrow> string \<Rightarrow> string option" where
  "match_id pre suf path =
     (let mid = take (length path - length pre - length suf) (drop (length pre) path)
      in if path = pre @ mid @ suf \<and> mid \<noteq> [] \<and> list_all alnum mid then Some mid else None)"

datatype route =
    Options
  | CreateSurvey
  | GetSurvey string
  | SubmitResponse string
  | GetResponses string
  | DeleteSurvey string
  | GetSurveyByAnalysisId string
  | GetResponsesByAnalysisId string
  | DeleteSurveyByAnalysisId string
  | ApiNotFound
  | StaticFile string

definition route_of :: "string \<Rightarrow> string \<Rightarrow> route" where
  "route_of method path =
     (if method = ''OPTIONS'' then Options
      else if startsWith path ''/api/'' then
        (if path = ''/api/survey'' \<and> method = ''POST'' then CreateSurvey
         else
           let surveyMatch = match_id ''/api/survey/'' [] path;
               responseMatch = match_id ''/api/survey/'' ''/response'' path;
               responsesMatch = match_id ''/api/survey/'' ''/responses'' path;
               deleteMatch = match_id ''/api/survey/'' [] path;
               analysisSurveyMatch = match_id ''/api/analysis/'' ''/survey'' path;
               analysisResponsesMatch = match_id ''/api/analysis/'' ''/responses'' path;
               analysisDeleteMatch = match_id ''/api/analysis/'' [] path
           in if surveyMatch \<noteq> None \<and> method = ''GET'' then GetSurvey (the surveyMatch)
              else if responseMatch \<noteq> None \<and> method = ''POST''
                then SubmitResponse (the responseMatch)
              else if responsesMatch \<noteq> None \<and> method = ''GET''
                then GetResponses (the responsesMatch)
              else if deleteMatch \<noteq> None \<and> method = ''DELETE''
                then DeleteSurvey (the deleteMatch)
              else if analysisSurveyMatch \<noteq> None \<and> method = ''GET''
                then GetSurveyByAnalysisId (the analysisSurveyMatch)
              else if analysisResponsesMatch \<noteq> None \<and> method = ''GET''
                then GetResponsesByAnalysisId (the analysisResponsesMatch)
              else if analysisDeleteMatch \<noteq> None \<and> method = ''DELETE''
                then DeleteSurveyByAnalysisId (the analysisDeleteMatch)
              else ApiNotFound)
      else StaticFile path)"

text \<open>
  A request, as far as the routes below read it: its method, the path of its URL and the
  value of the query parameter \<open>keyHash\<close>. \<open>handleRequest\<close> is defined on the routes
  that read a stored survey or are reserved to its creator; it is \<open>None\<close> on the other
  routes (survey creation, response submission, static files, CORS preflight).
\<close>

record request =
  rq_method :: string
  rq_path :: string
  rq_keyHash :: "string option"

definition handleRequest ::
  "request \<Rightarrow> nat \<Rightarrow> database \<Rightarrow> (http_response \<times> database) option" where
  "handleRequest rq now db =
     (case route_of (rq_method rq) (rq_path rq) of
        GetSurvey surveyId \<Rightarrow> Some (handleGetSurvey surveyId db, db)
      | GetResponses surveyId \<Rightarrow> Some (handleGetResponses surveyId (rq_keyHash rq) now db, db)
      | DeleteSurvey surveyId \<Rightarrow> Some (handleDeleteSurvey surveyId (rq_keyHash rq) db)
      | GetSurveyByAnalysisId analysisId \<Rightarrow> Some (handleGetSurveyByAnalysisId analysisId db, db)
      | GetResponsesByAnalysisId analysisId \<Rightarrow>
          Some (handleGetResponsesByAnalysisId analysisId (rq_keyHash rq) now db, db)
      | DeleteSurveyByAnalysisId analysisId \<Rightarrow>
          Some (handleDeleteSurveyByAnalysisId analysisId (rq_keyHash rq) db)
      | ApiNotFound \<Rightarrow> Some (errorResponse ''API endpoint not found'' 404, db)
      | _ \<Rightarrow> None)"

section \<open>Contracts of the libraries\<close>

text \<open>
  What the proofs below take from the libraries, each as a predicate on the record of
  library functions.
  \<^item> Argon2 with a 16-byte salt and the module's cost parameters returns a hash of the
    requested 32 bytes.
  \<^item> \<open>nacl.secretbox\<close> with a 24-byte nonce and a 32-byte key returns the message's
    length plus 16 bytes (the authenticator), and \<open>nacl.secretbox.open\<close> on that box
    with the same nonce and key returns the message.
  \<^item> A SHA-256 digest has 32 bytes.
  \<^item> A value is JSON-serializable when parsing the decoded UTF-8 encoding of its JSON
    text gives the value back.
\<close>

definition argon2_contract :: "'v provider \<Rightarrow> bool" where
  "argon2_contract cp =
     (\<forall>pass salt. length salt = 16 \<longrightarrow>
        (\<exists>hash. argon2_hash cp pass salt 3 262144 32 1 = Inr hash \<and> length hash = 32))"

definition secretbox_contract :: "'v provider \<Rightarrow> bool" where
  "secretbox_contract cp =
     (\<forall>m n k. length n = 24 \<and> length k = 32 \<longrightarrow>
        (\<exists>c. secretbox cp m n k = Inr c \<and> length c = length m + 16 \<and>
             secretbox_open cp c n k = Inr (Some m)))"

definition digest_contract :: "'v provider \<Rightarrow> bool" where
  "digest_contract cp = (\<forall>k. length (subtle_digest cp k) = 32)"

definition serializable :: "'v provider \<Rightarrow> 'v \<Rightarrow> bool" where
  "serializable cp v =
     (JSON_parse cp (TextDecoder_decode cp (TextEncoder_encode cp (JSON_stringify cp v))) = Inr v)"

section \<open>A small instance for running the model\<close>

text \<open>
  To evaluate the model on concrete inputs, the libraries are instantiated with functions
  that have the interfaces and sizes of the real ones and none of their strength. The
  key derivation rejects a salt shorter than 8 bytes with Argon2's code -6 and accepts
  every password, as the Argon2 reference library does; the box carries a 16-byte
  authenticator in front of the masked message and checks the sizes of nonce and key, as
  tweetnacl does; the structured values are strings, written between double quotes.
\<close>

definition demo_argon2 :: "bytes \<Rightarrow> bytes \<Rightarrow> nat \<Rightarrow> nat \<Rightarrow> nat \<Rightarrow> nat \<Rightarrow> error + bytes" where
  "demo_argon2 pass salt t m hashLen p =
     (if length salt < 8 then Inl (Argon2Error (- 6))
      else Inr (replicate hashLen (sum_list pass + sum_list salt)))"

definition demo_tag :: "bytes \<Rightarrow> bytes \<Rightarrow> bytes \<Rightarrow> bytes" where
  "demo_tag m n k = replicate 16 (sum_list m + sum_list n + sum_list k)"

definition demo_secretbox :: "bytes \<Rightarrow> bytes \<Rightarrow> bytes \<Rightarrow> error + bytes" where
  "demo_secretbox m n k =
     (if length k \<noteq> 32 then Inl (Error ''bad key size'')
      else if length n \<noteq> 24 then Inl (Error ''bad nonce size'')
      else Inr (demo_tag m n k @ map (\<lambda>b. b + sum_list k) m))"

definition demo_secretbox_open :: "bytes \<Rightarrow> bytes \<Rightarrow> bytes \<Rightarrow> error + bytes option" where
  "demo_secretbox_open c n k =
     (if length k \<noteq> 32 then Inl (Error ''bad key size'')
      else if length n \<noteq> 24 then Inl (Error ''bad nonce size'')
      else
        let m = map (\<lambda>b. b - sum_list k) (drop 16 c)
        in if 16 \<le> length c \<and> take 16 c = demo_tag m n k then Inr (Some m) else Inr None)"

definition demo_digest :: "bytes \<Rightarrow> bytes" where
  "demo_digest k = replicate 32 (sum_list k + 1)"

definition demo_parse :: "string \<Rightarrow> error + string" where
  "demo_parse t =
     (if 2 \<le> length t \<and> hd t = CHR 0x22 \<and> last t = CHR 0x22
      then Inr (butlast (tl t)) else Inl SyntaxError)"

definition demo_provider :: "string provider" where
  "demo_provider =
     \<lparr>argon2_hash = demo_argon2,
      secretbox = demo_secretbox,
      secretbox_open = demo_secretbox_open,
      subtle_digest = demo_digest,
      JSON_stringify = (\<lambda>v. CHR 0x22 # v @ [CHR 0x22]),
      JSON_parse = demo_parse,
      TextEncoder_encode = map (\<lambda>c. of_nat (of_char c)),
      TextDecoder_decode = map (\<lambda>b. char_of (unat b))\<rparr>"

definition demo_world :: world where
  "demo_world =
     \<lparr>entropy = (\<lambda>i. of_nat (7 * i + 3)), drawn = 0,
      clock = (\<lambda>t. 1700000000000 + t), ticks = 0, calls = []\<rparr>"

text \<open>
  The package that sealing the value \<open>T\<close> under the password
  \<open>correct-horse-battery\<close> gives in \<open>demo_world\<close>: a 16-byte salt, then 24 bytes of
  nonce, 16 of authenticator and the three bytes of the masked text.
\<close>

definition demo_package :: encrypted_survey where
  "demo_package =
     \<lparr>es_id = ''01HF7YAT00V02191G1Q1Y152C2'',
      es_salt = [3, 10, 17, 24, 31, 38, 45, 52, 59, 66, 73, 80, 87, 94, 101, 108],
      es_encryptedData =
        [115, 122, 129, 136, 143, 150, 157, 164, 171, 178, 185, 192, 199,
         206, 213, 220, 227, 234, 241, 248, 255, 6, 13, 20, 236, 236, 236,
         236, 236, 236, 236, 236, 236, 236, 236, 236, 236, 236, 236, 236,
         34, 84, 34],
      es_keyHash = ''0101010101010101010101010101010101010101010101010101010101010101'',
      es_createdAt = 1700000000001\<rparr>"

definition demo_row :: survey_row where
  "demo_row =
     \<lparr>row_id = ''SURVEY01'',
      row_analysis_id = Some ''ANALYSIS01'',
      row_title = [],
      row_description = Some [],
      row_questions = [1, 2, 3],
      row_salt = replicate 16 7,
      row_created_at = 1700000000000,
      row_expires_at = None,
      row_max_responses = None,
      row_creator_key_hash = ''c0ffee''\<rparr>"

definition demo_db :: database where
  "demo_db =
     \<lparr>surveys = [demo_row],
      responses = [\<lparr>resp_id = ''R1'', resp_survey_id = ''SURVEY01'',
                    resp_answers = [9, 9], resp_submitted_at = 1700000000500\<rparr>]\<rparr>"

section \<open>Auxiliary facts\<close>

text \<open>
  Facts about the functions above that several proofs share, and rewrite rules that let
  the simplifier run the model on numerals.
\<close>

lemma new_Uint8Array_Array_from: "new_Uint8Array (Array_from u) = u"
  by (simp add: new_Uint8Array_def Array_from_def map_idI)

lemma validatePassword_valid:
  "valid (validatePassword P) \<longleftrightarrow> 8 \<le> length P \<and> length P \<le> 128"
  by (auto simp: validatePassword_def)

lemma length_randomBytes: "length (fst (randomBytes n w)) = n"
  by (simp add: randomBytes_def)

lemma deriveKey_eq:
  "deriveKey cp P S w =
     (argon2_hash cp (TextEncoder_encode cp P) S 3 262144 32 1,
      logged (Argon2Hash (TextEncoder_encode cp P) S) w)"
  by (simp add: deriveKey_def Let_def split: sum.splits)

lemma upt_0_numeral: "[0..<numeral n] = 0 # [Suc 0..<numeral n]"
  by (simp add: upt_conv_Cons)

lemma upt_1_numeral:
  "[Suc 0..<numeral n] = (if Suc 0 < numeral n then Suc 0 # [2..<numeral n] else [])"
  by (simp add: upt_conv_Cons Suc_1 [symmetric] del: Suc_1)

lemma encode_timestamp_numeral:
  "encode_timestamp (numeral k) temp result =
     encode_timestamp (pred_numeral k) (temp div 32) (chars ! (temp mod 32) # result)"
proof -
  have "numeral k = Suc (pred_numeral k)" by (rule numeral_eq_Suc)
  then show ?thesis by (simp only: encode_timestamp.simps)
qed

lemma toString_radix_numeral:
  "toString_radix (numeral r) (numeral n) =
     (if (numeral r :: nat) < 2 \<or> (numeral n :: nat) < numeral r then [digit_chars ! numeral n]
      else toString_radix (numeral r) (numeral n div numeral r) @
           [digit_chars ! (numeral n mod numeral r)])"
  by (rule toString_radix.simps)

lemma toString_radix_0: "toString_radix 16 0 = [digit_chars ! 0]"
  by (subst toString_radix.simps) simp

lemma toString_radix_1: "toString_radix 16 (Suc 0) = [digit_chars ! Suc 0]"
  by (subst toString_radix.simps) simp

lemma replicate_numeral_Cons: "replicate (numeral k) x = x # replicate (pred_numeral k) x"
  by (simp add: numeral_eq_Suc)

lemmas demo_defs =
  demo_provider_def demo_argon2_def demo_secretbox_def demo_secretbox_open_def demo_tag_def
  demo_digest_def demo_parse_def demo_world_def sum_list_replicate replicate_numeral_Cons
  char_of_def bit_Suc_0_iff toString_radix_numeral toString_radix_0 toString_radix_1

lemma encryptData_Inr_iff:
  "fst (encryptData cp d k w) = Inr out \<longleftrightarrow>
   (\<exists>c. secretbox cp (TextEncoder_encode cp (JSON_stringify cp d))
           (fst (randomBytes nonceLength w)) k = Inr c \<and>
        out = fst (randomBytes nonceLength w) @ c)"
  by (auto simp: encryptData_def Let_def split: prod.splits sum.splits)

text \<open>What a successful sealing has done: the library calls it made and the fields it filled.\<close>

lemma createEncryptedSurvey_Inr:
  assumes "createEncryptedSurvey cp V P w = (Inr pkg, w1)"
  shows "\<exists>k c. argon2_hash cp (TextEncoder_encode cp P) (fst (randomBytes 16 w)) 3 262144 32 1 = Inr k
        \<and> secretbox cp (TextEncoder_encode cp (JSON_stringify cp V))
             (fst (randomBytes nonceLength
                (logged (Argon2Hash (TextEncoder_encode cp P) (fst (randomBytes 16 w)))
                   (snd (randomBytes 16 w))))) k = Inr c
        \<and> es_salt pkg = Array_from (fst (randomBytes 16 w))
        \<and> es_encryptedData pkg =
             Array_from (fst (randomBytes nonceLength
                (logged (Argon2Hash (TextEncoder_encode cp P) (fst (randomBytes 16 w)))
                   (snd (randomBytes 16 w)))) @ c)
        \<and> es_keyHash pkg = fingerprint cp k"
proof -
  obtain salt w0 where rb: "randomBytes 16 w = (salt, w0)" by (cases "randomBytes 16 w")
  from assms have v: "valid (validatePassword P)"
    by (auto simp: createEncryptedSurvey_def Let_def split: if_splits)
  from assms v rb obtain k
    where k: "argon2_hash cp (TextEncoder_encode cp P) salt 3 262144 32 1 = Inr k"
    by (cases "argon2_hash cp (TextEncoder_encode cp P) salt 3 262144 32 1")
       (auto simp: createEncryptedSurvey_def Let_def deriveKey_eq)
  let ?w2 = "logged (Argon2Hash (TextEncoder_encode cp P) salt) w0"
  obtain r w3 where e: "encryptData cp V k ?w2 = (r, w3)" by (cases "encryptData cp V k ?w2")
  with assms v rb k obtain out where out: "r = Inr out"
    by (cases r) (auto simp: createEncryptedSurvey_def Let_def deriveKey_eq)
  from e out have "fst (encryptData cp V k ?w2) = Inr out" by simp
  then obtain c
    where c: "secretbox cp (TextEncoder_encode cp (JSON_stringify cp V))
                (fst (randomBytes nonceLength ?w2)) k = Inr c"
      "out = fst (randomBytes nonceLength ?w2) @ c"
    by (auto simp: encryptData_Inr_iff)
  from assms v rb k e out
  have "es_salt pkg = Array_from salt" "es_encryptedData pkg = Array_from out"
    "es_keyHash pkg = fingerprint cp k"
    by (auto simp: createEncryptedSurvey_def Let_def deriveKey_eq createKeyHash_def
        split: prod.splits)
  with k c rb show ?thesis by auto
qed

text \<open>Sealing succeeds when the password is valid and the two library calls succeed.\<close>

lemma createEncryptedSurvey_ok:
  assumes v: "valid (validatePassword P)"
    and k: "argon2_hash cp (TextEncoder_encode cp P) (fst (randomBytes 16 w)) 3 262144 32 1 = Inr k"
    and c: "secretbox cp (TextEncoder_encode cp (JSON_stringify cp V))
             (fst (randomBytes nonceLength
                (logged (Argon2Hash (TextEncoder_encode cp P) (fst (randomBytes 16 w)))
                   (snd (randomBytes 16 w))))) k = Inr c"
  shows "\<exists>pkg w1. createEncryptedSurvey cp V P w = (Inr pkg, w1)"
proof -
  obtain salt w0 where rb: "randomBytes 16 w = (salt, w0)" by (cases "randomBytes 16 w")
  let ?w2 = "logged (Argon2Hash (TextEncoder_encode cp P) salt) w0"
  from c rb have "fst (encryptData cp V k ?w2) = Inr (fst (randomBytes nonceLength ?w2) @ c)"
    by (simp add: encryptData_Inr_iff)
  then obtain w3
    where "encryptData cp V k ?w2 = (Inr (fst (randomBytes nonceLength ?w2) @ c), w3)"
    by (cases "encryptData cp V k ?w2") auto
  with v k rb show ?thesis
    by (simp add: createEncryptedSurvey_def Let_def deriveKey_eq createKeyHash_def
        split: prod.splits)
qed

text \<open>Under the contracts of the libraries, sealing with a valid password succeeds.\<close>

lemma sealing_succeeds:
  assumes a: "argon2_contract cp" and s: "secretbox_contract cp"
    and p: "8 \<le> length P" "length P \<le> 128"
  obtains pkg w1 k c where
    "createEncryptedSurvey cp V P w = (Inr pkg, w1)"
    "argon2_hash cp (TextEncoder_encode cp P) (fst (randomBytes 16 w)) 3 262144 32 1 = Inr k"
    "length k = 32"
    "length c = length (TextEncoder_encode cp (JSON_stringify cp V)) + 16"
    "secretbox_open cp c
       (fst (randomBytes nonceLength
          (logged (Argon2Hash (TextEncoder_encode cp P) (fst (randomBytes 16 w)))
             (snd (randomBytes 16 w))))) k
     = Inr (Some (TextEncoder_encode cp (JSON_stringify cp V)))"
    "es_salt pkg = Array_from (fst (randomBytes 16 w))"
    "es_encryptedData pkg =
       Array_from (fst (randomBytes nonceLength
          (logged (Argon2Hash (TextEncoder_encode cp P) (fst (randomBytes 16 w)))
             (snd (randomBytes 16 w)))) @ c)"
    "es_keyHash pkg = fingerprint cp k"
proof -
  let ?salt = "fst (randomBytes 16 w)"
  let ?w2 = "logged (Argon2Hash (TextEncoder_encode cp P) ?salt) (snd (randomBytes 16 w))"
  let ?nonce = "fst (randomBytes nonceLength ?w2)"
  let ?msg = "TextEncoder_encode cp (JSON_stringify cp V)"
  from a obtain k where k: "argon2_hash cp (TextEncoder_encode cp P) ?salt 3 262144 32 1 = Inr k"
    and lk: "length k = 32"
    unfolding argon2_contract_def using length_randomBytes[of 16 w] by blast
  have ln: "length ?nonce = 24" by (simp add: length_randomBytes nonceLength_def)
  from s ln lk obtain c where c: "secretbox cp ?msg ?nonce k = Inr c"
    and lc: "length c = length ?msg + 16"
    and op: "secretbox_open cp c ?nonce k = Inr (Some ?msg)"
    unfolding secretbox_contract_def by blast
  from p have v: "valid (validatePassword P)" by (simp add: validatePassword_valid)
  from createEncryptedSurvey_ok[OF v k c] obtain pkg w1
    where seal: "createEncryptedSurvey cp V P w = (Inr pkg, w1)" by blast
  from createEncryptedSurvey_Inr[OF seal] k c
  have "es_salt pkg = Array_from ?salt" "es_encryptedData pkg = Array_from (?nonce @ c)"
    "es_keyHash pkg = fingerprint cp k" by auto
  with seal k lk lc op show thesis by (rule that)
qed

lemma decryptSurvey_ok:
  assumes k: "argon2_hash cp (TextEncoder_encode cp P) (new_Uint8Array (es_salt pkg))
                3 262144 32 1 = Inr k"
    and h: "es_keyHash pkg = fingerprint cp k"
    and n: "nonceLength \<le> length (es_encryptedData pkg)"
    and o: "secretbox_open cp (drop nonceLength (new_Uint8Array (es_encryptedData pkg)))
              (take nonceLength (new_Uint8Array (es_encryptedData pkg))) k = Inr (Some m)"
    and p: "JSON_parse cp (TextDecoder_decode cp m) = Inr V"
  shows "fst (decryptSurvey cp pkg P w) = Inr \<lparr>surveyData = V, key = k\<rparr>"
  using assms
  by (simp add: decryptSurvey_def Let_def deriveKey_eq createKeyHash_def decryptData_def
      new_Uint8Array_def)

lemma decryptSurvey_mismatch:
  assumes k: "argon2_hash cp (TextEncoder_encode cp P) (new_Uint8Array (es_salt pkg))
                3 262144 32 1 = Inr k"
    and h: "fingerprint cp k \<noteq> es_keyHash pkg"
  shows "decryptSurvey cp pkg P w =
           (Inl (Error ''Invalid password''),
            logged (Digest k)
              (logged (Argon2Hash (TextEncoder_encode cp P) (new_Uint8Array (es_salt pkg))) w))"
  using assms
  by (simp add: decryptSurvey_def Let_def deriveKey_eq createKeyHash_def)

subsection \<open>The demo instance meets the contracts\<close>

lemma demo_argon2_contract: "argon2_contract demo_provider"
  by (simp add: argon2_contract_def demo_provider_def demo_argon2_def)

lemma demo_secretbox_contract: "secretbox_contract demo_provider"
  by (simp add: secretbox_contract_def demo_provider_def demo_secretbox_def
      demo_secretbox_open_def demo_tag_def Let_def o_def)

lemma demo_digest_contract: "digest_contract demo_provider"
  by (simp add: digest_contract_def demo_provider_def demo_digest_def)

lemma demo_text_roundtrip:
  "TextDecoder_decode demo_provider (TextEncoder_encode demo_provider s) = s"
  by (simp add: demo_provider_def o_def unat_of_nat map_idI)

lemma demo_json_roundtrip: "JSON_parse demo_provider (JSON_stringify demo_provider v) = Inr v"
  by (simp add: demo_provider_def demo_parse_def)

lemma demo_serializable: "serializable demo_provider v"
  by (simp add: serializable_def demo_text_roundtrip demo_json_roundtrip)

lemmas seal_defs =
  createEncryptedSurvey_def validatePassword_def Let_def randomBytes_def
  upt_0_numeral upt_1_numeral deriveKey_eq encryptData_def createKeyHash_def fingerprint_def
  generateUlid_def Date_now_def logged_def nonceLength_def Array_from_def padStart_def
  digit_chars_def chars_def encode_timestamp_numeral

lemmas open_defs =
  decryptSurvey_def Let_def deriveKey_eq decryptData_def createKeyHash_def fingerprint_def
  logged_def nonceLength_def new_Uint8Array_def padStart_def digit_chars_def

lemma demo_seal:
  "fst (createEncryptedSurvey demo_provider ''T'' ''correct-horse-battery'' demo_world) =
   Inr demo_package"
  by (simp add: seal_defs demo_defs demo_package_def)

section \<open>The claims about the crypto module\<close>

text \<open>
  C1. Round trip. For every JSON-serializable value \<open>V\<close> and every password \<open>P\<close> of 8
  to 128 characters, sealing succeeds and opening the package with the same password
  succeeds with \<open>surveyData\<close> equal to \<open>V\<close>, whatever the state of the random source
  and the clock at either call. The libraries are assumed to keep their contracts.
\<close>

theorem seal_open_roundtrip:
  assumes a: "argon2_contract cp" and s: "secretbox_contract cp" and j: "serializable cp V"
    and p: "8 \<le> length P" "length P \<le> 128"
  shows "\<exists>pkg w1. createEncryptedSurvey cp V P w = (Inr pkg, w1) \<and>
           (\<exists>d. fst (decryptSurvey cp pkg P w2) = Inr d \<and> surveyData d = V)"
proof (rule sealing_succeeds [OF a s p, of V w], goal_cases)
  case (1 pkg w1 k c)
  let ?salt = "fst (randomBytes 16 w)"
  let ?w2 = "logged (Argon2Hash (TextEncoder_encode cp P) ?salt) (snd (randomBytes 16 w))"
  let ?nonce = "fst (randomBytes nonceLength ?w2)"
  let ?msg = "TextEncoder_encode cp (JSON_stringify cp V)"
  note seal = "1"(1) and k = "1"(2) and op = "1"(5) and salt = "1"(6) and data = "1"(7)
    and hash = "1"(8)
  have ln: "length ?nonce = 24" by (simp add: length_randomBytes nonceLength_def)
  have "fst (decryptSurvey cp pkg P w2) = Inr \<lparr>surveyData = V, key = k\<rparr>"
  proof (rule decryptSurvey_ok)
    show "argon2_hash cp (TextEncoder_encode cp P) (new_Uint8Array (es_salt pkg))
            3 262144 32 1 = Inr k"
      using k salt by (simp add: new_Uint8Array_Array_from)
    show "es_keyHash pkg = fingerprint cp k" by (rule hash)
    show "nonceLength \<le> length (es_encryptedData pkg)"
      using ln data by (simp add: Array_from_def nonceLength_def)
    show "secretbox_open cp (drop nonceLength (new_Uint8Array (es_encryptedData pkg)))
              (take nonceLength (new_Uint8Array (es_encryptedData pkg))) k = Inr (Some ?msg)"
      using op ln data by (simp add: new_Uint8Array_Array_from nonceLength_def)
    show "JSON_parse cp (TextDecoder_decode cp ?msg) = Inr V"
      using j by (simp add: serializable_def)
  qed
  with seal show ?case by auto
qed

theorem seal_open_roundtrip_witness:
  "8 \<le> length ''correct-horse-battery'' \<and> length ''correct-horse-battery'' \<le> 128 \<and>
   (\<exists>pkg w1. createEncryptedSurvey demo_provider ''T'' ''correct-horse-battery'' demo_world
               = (Inr pkg, w1) \<and>
      (\<exists>d. fst (decryptSurvey demo_provider pkg ''correct-horse-battery'' demo_world) = Inr d \<and>
           surveyData d = ''T''))"
  using seal_open_roundtrip [OF demo_argon2_contract demo_secretbox_contract demo_serializable,
      of "''correct-horse-battery''" "''T''" demo_world demo_world]
  by simp


text \<open>
  C2. Wrong password. Let a package be sealed under \<open>P1\<close>, and let \<open>P2\<close> be a
  password whose key, derived with the package's salt, has a fingerprint different from
  that of the key of \<open>P1\<close>. Then opening the package with \<open>P2\<close> fails with
  the error \<open>Invalid password\<close>, and the only library calls it makes are the key
  derivation and the digest: the cipher is never called.
\<close>

theorem wrong_password_rejected:
  assumes seal: "createEncryptedSurvey cp V P1 w = (Inr pkg, w1)"
    and k1: "argon2_hash cp (TextEncoder_encode cp P1) (new_Uint8Array (es_salt pkg))
               3 262144 32 1 = Inr k1"
    and k2: "argon2_hash cp (TextEncoder_encode cp P2) (new_Uint8Array (es_salt pkg))
               3 262144 32 1 = Inr k2"
    and diff: "fingerprint cp k1 \<noteq> fingerprint cp k2"
  shows "fst (decryptSurvey cp pkg P2 w2) = Inl (Error ''Invalid password'') \<and>
         calls (snd (decryptSurvey cp pkg P2 w2)) =
           calls w2 @ [Argon2Hash (TextEncoder_encode cp P2) (new_Uint8Array (es_salt pkg)),
                       Digest k2]"
proof -
  from createEncryptedSurvey_Inr [OF seal] k1 have "es_keyHash pkg = fingerprint cp k1"
    by (auto simp: new_Uint8Array_Array_from)
  with diff have "fingerprint cp k2 \<noteq> es_keyHash pkg" by simp
  from decryptSurvey_mismatch [OF k2 this] show ?thesis by (simp add: logged_def)
qed

theorem wrong_password_rejected_witness:
  "fst (decryptSurvey demo_provider demo_package ''wrong-password'' demo_world)
     = Inl (Error ''Invalid password'') \<and>
   calls (snd (decryptSurvey demo_provider demo_package ''wrong-password'' demo_world)) =
     [Argon2Hash (TextEncoder_encode demo_provider ''wrong-password'')
        (new_Uint8Array (es_salt demo_package)),
      Digest (replicate 32 69)]"
proof -
  have seal: "createEncryptedSurvey demo_provider ''T'' ''correct-horse-battery'' demo_world =
      (Inr demo_package,
       snd (createEncryptedSurvey demo_provider ''T'' ''correct-horse-battery'' demo_world))"
    using demo_seal by (simp add: prod_eq_iff)
  have k1: "argon2_hash demo_provider (TextEncoder_encode demo_provider ''correct-horse-battery'')
      (new_Uint8Array (es_salt demo_package)) 3 262144 32 1 = Inr (replicate 32 224)"
    by (simp add: demo_provider_def demo_argon2_def demo_package_def new_Uint8Array_def)
  have k2: "argon2_hash demo_provider (TextEncoder_encode demo_provider ''wrong-password'')
      (new_Uint8Array (es_salt demo_package)) 3 262144 32 1 = Inr (replicate 32 69)"
    by (simp add: demo_provider_def demo_argon2_def demo_package_def new_Uint8Array_def)
  have diff: "fingerprint demo_provider (replicate 32 224) \<noteq>
      fingerprint demo_provider (replicate 32 69)"
    by (simp add: fingerprint_def padStart_def digit_chars_def demo_defs)
  from wrong_password_rejected [OF seal k1 k2 diff, of demo_world]
  show ?thesis by (simp add: demo_world_def)
qed

text \<open>
  C4, as the code has it. \<open>decryptSurvey\<close> hands the derived key to its caller. It
  succeeds with a result \<open>d\<close> exactly when \<open>deriveKey\<close> on the password and the
  package's salt gives the key \<open>key d\<close>, the fingerprint of that key is the package's
  \<open>keyHash\<close>, and \<open>decryptData\<close> on the package's encrypted data under that key
  gives \<open>surveyData d\<close>; the state it leaves is the one \<open>decryptData\<close> leaves.
\<close>

theorem decryptSurvey_returns_key:
  "decryptSurvey cp pkg P w = (Inr d, w') \<longleftrightarrow>
     fst (deriveKey cp P (new_Uint8Array (es_salt pkg)) w) = Inr (key d) \<and>
     fingerprint cp (key d) = es_keyHash pkg \<and>
     decryptData cp (new_Uint8Array (es_encryptedData pkg)) (key d)
       (snd (createKeyHash cp (key d)
          (snd (deriveKey cp P (new_Uint8Array (es_salt pkg)) w))))
     = (Inr (surveyData d), w')"
proof (cases "argon2_hash cp (TextEncoder_encode cp P) (new_Uint8Array (es_salt pkg))
                3 262144 32 1")
  case (Inl e)
  then show ?thesis by (simp add: decryptSurvey_def Let_def deriveKey_eq)
next
  case (Inr k)
  let ?w2 = "snd (createKeyHash cp k (snd (deriveKey cp P (new_Uint8Array (es_salt pkg)) w)))"
  show ?thesis
  proof (cases "fingerprint cp k = es_keyHash pkg")
    case False
    with Inr show ?thesis
      by (auto simp: decryptSurvey_def Let_def deriveKey_eq createKeyHash_def)
  next
    case True
    obtain r w3 where dd: "decryptData cp (new_Uint8Array (es_encryptedData pkg)) k ?w2 = (r, w3)"
      by (cases "decryptData cp (new_Uint8Array (es_encryptedData pkg)) k ?w2")
    have ds: "decryptSurvey cp pkg P w =
        (case r of Inl e \<Rightarrow> Inl e | Inr v \<Rightarrow> Inr \<lparr>surveyData = v, key = k\<rparr>, w3)"
      using Inr True dd
      by (cases r) (simp_all add: decryptSurvey_def Let_def deriveKey_eq createKeyHash_def)
    show ?thesis
    proof
      assume "decryptSurvey cp pkg P w = (Inr d, w')"
      with ds obtain v where "r = Inr v" "d = \<lparr>surveyData = v, key = k\<rparr>" "w3 = w'"
        by (cases r) auto
      with Inr True dd show "fst (deriveKey cp P (new_Uint8Array (es_salt pkg)) w) = Inr (key d) \<and>
         fingerprint cp (key d) = es_keyHash pkg \<and>
         decryptData cp (new_Uint8Array (es_encryptedData pkg)) (key d)
           (snd (createKeyHash cp (key d)
              (snd (deriveKey cp P (new_Uint8Array (es_salt pkg)) w))))
         = (Inr (surveyData d), w')"
        by (simp add: deriveKey_eq)
    next
      assume r: "fst (deriveKey cp P (new_Uint8Array (es_salt pkg)) w) = Inr (key d) \<and>
         fingerprint cp (key d) = es_keyHash pkg \<and>
         decryptData cp (new_Uint8Array (es_encryptedData pkg)) (key d)
           (snd (createKeyHash cp (key d)
              (snd (deriveKey cp P (new_Uint8Array (es_salt pkg)) w))))
         = (Inr (surveyData d), w')"
      with Inr have kd: "key d = k" by (simp add: deriveKey_eq)
      with r dd have "r = Inr (surveyData d)" "w3 = w'" by simp_all
      with ds kd show "decryptSurvey cp pkg P w = (Inr d, w')" by simp
    qed
  qed
qed

lemma demo_open:
  "fst (decryptSurvey demo_provider demo_package ''correct-horse-battery'' demo_world) =
   Inr \<lparr>surveyData = ''T'', key = replicate 32 224\<rparr>"
  by (simp add: open_defs demo_defs demo_package_def)

theorem decryptSurvey_returns_key_witness:
  "fst (deriveKey demo_provider ''correct-horse-battery''
          (new_Uint8Array (es_salt demo_package)) demo_world) = Inr (replicate 32 224) \<and>
   fingerprint demo_provider (replicate 32 224) = es_keyHash demo_package \<and>
   fst (decryptData demo_provider (new_Uint8Array (es_encryptedData demo_package))
          (replicate 32 224)
          (snd (createKeyHash demo_provider (replicate 32 224)
             (snd (deriveKey demo_provider ''correct-horse-battery''
                (new_Uint8Array (es_salt demo_package)) demo_world))))) = Inr ''T''"
proof -
  have "decryptSurvey demo_provider demo_package ''correct-horse-battery'' demo_world =
      (Inr \<lparr>surveyData = ''T'', key = replicate 32 224\<rparr>,
       snd (decryptSurvey demo_provider demo_package ''correct-horse-battery'' demo_world))"
    using demo_open by (simp add: prod_eq_iff)
  from decryptSurvey_returns_key [THEN iffD1, OF this] show ?thesis by simp
qed

theorem decryptSurvey_key_counterexample:
  "fst (decryptSurvey demo_provider demo_package ''correct-horse-battery'' demo_world) =
     Inr \<lparr>surveyData = ''T'', key = replicate 32 224\<rparr> \<and>
   fst (deriveKey demo_provider ''correct-horse-battery''
          (new_Uint8Array (es_salt demo_package)) demo_world) = Inr (replicate 32 224)"
  using demo_open
  by (simp add: deriveKey_eq demo_provider_def demo_argon2_def demo_package_def
      new_Uint8Array_def)

subsection \<open>Nonces\<close>

text \<open>Two calls in any two states: different nonces give different outputs.\<close>

lemma encryptData_distinct_nonces:
  assumes "fst (encryptData cp d k w1) = Inr c1"
    and "fst (randomBytes nonceLength w1) \<noteq> fst (randomBytes nonceLength w2)"
  shows "take 24 c1 = fst (randomBytes nonceLength w1) \<and>
         fst (encryptData cp d k w2) \<noteq> Inr c1"
proof -
  from assms(1) obtain x where c1: "c1 = fst (randomBytes nonceLength w1) @ x"
    by (auto simp: encryptData_Inr_iff)
  have l: "length (fst (randomBytes nonceLength w1)) = 24"
    "length (fst (randomBytes nonceLength w2)) = 24"
    by (simp_all add: length_randomBytes nonceLength_def)
  have "fst (encryptData cp d k w2) \<noteq> Inr c1"
  proof
    assume "fst (encryptData cp d k w2) = Inr c1"
    then obtain y where "c1 = fst (randomBytes nonceLength w2) @ y"
      by (auto simp: encryptData_Inr_iff)
    with c1 l have "fst (randomBytes nonceLength w1) = fst (randomBytes nonceLength w2)"
      by (metis append_eq_append_conv)
    with assms(2) show False by simp
  qed
  with c1 l show ?thesis by simp
qed

lemma encryptData_eq:
  "encryptData cp d k w =
     (case secretbox cp (TextEncoder_encode cp (JSON_stringify cp d))
             (map (entropy w) [drawn w..<drawn w + 24]) k of
        Inl e \<Rightarrow> Inl e
      | Inr c \<Rightarrow> Inr (map (entropy w) [drawn w..<drawn w + 24] @ c),
      w\<lparr>drawn := drawn w + 24,
        calls := calls w @ [Secretbox (TextEncoder_encode cp (JSON_stringify cp d))
                              (map (entropy w) [drawn w..<drawn w + 24]) k]\<rparr>)"
  by (simp add: encryptData_def randomBytes_def nonceLength_def logged_def Let_def
      split: sum.splits)

text \<open>
  C7. Fresh nonce. Each call of \<open>encryptData\<close> draws the next 24 bytes of the random
  source as its nonce, puts them in front of what \<open>secretbox\<close> returns for the
  serialized plaintext under that nonce and the key, and leaves the source 24 bytes
  further on. So of two calls made one after the other, with the same plaintext and key,
  the second draws the following 24 bytes; when the two nonces differ, the second call
  does not return the sealed bytes of the first.
\<close>

theorem encryptData_fresh_nonce:
  assumes first: "encryptData cp d k w = (Inr c1, w1)"
    and second: "encryptData cp d k w1 = (r2, w2)"
    and differ: "map (entropy w) [drawn w..<drawn w + 24] \<noteq>
                 map (entropy w) [drawn w + 24..<drawn w + 48]"
  shows "take 24 c1 = map (entropy w) [drawn w..<drawn w + 24] \<and>
         secretbox cp (TextEncoder_encode cp (JSON_stringify cp d)) (take 24 c1) k
           = Inr (drop 24 c1) \<and>
         w1 = w\<lparr>drawn := drawn w + 24,
                 calls := calls w @ [Secretbox (TextEncoder_encode cp (JSON_stringify cp d))
                                       (take 24 c1) k]\<rparr> \<and>
         r2 = (case secretbox cp (TextEncoder_encode cp (JSON_stringify cp d))
                      (map (entropy w) [drawn w + 24..<drawn w + 48]) k of
                 Inl e \<Rightarrow> Inl e
               | Inr c \<Rightarrow> Inr (map (entropy w) [drawn w + 24..<drawn w + 48] @ c)) \<and>
         w2 = w\<lparr>drawn := drawn w + 48,
                 calls := calls w @
                   [Secretbox (TextEncoder_encode cp (JSON_stringify cp d)) (take 24 c1) k,
                    Secretbox (TextEncoder_encode cp (JSON_stringify cp d))
                      (map (entropy w) [drawn w + 24..<drawn w + 48]) k]\<rparr> \<and>
         r2 \<noteq> Inr c1"
proof -
  let ?msg = "TextEncoder_encode cp (JSON_stringify cp d)"
  let ?n1 = "map (entropy w) [drawn w..<drawn w + 24]"
  let ?n2 = "map (entropy w) [drawn w + 24..<drawn w + 48]"
  from first obtain c where c: "secretbox cp ?msg ?n1 k = Inr c" and c1: "c1 = ?n1 @ c"
    and w1: "w1 = w\<lparr>drawn := drawn w + 24, calls := calls w @ [Secretbox ?msg ?n1 k]\<rparr>"
    by (auto simp: encryptData_eq split: sum.splits)
  have t: "take 24 c1 = ?n1" "drop 24 c1 = c" using c1 by simp_all
  have a: "drawn w + 24 + 24 = drawn w + 48" by arith
  from w1 have e: "entropy w1 = entropy w" "drawn w1 = drawn w + 24"
    "calls w1 = calls w @ [Secretbox ?msg ?n1 k]" by simp_all
  then have n: "map (entropy w1) [drawn w1..<drawn w1 + 24] = ?n2" by (simp only: a)
  from second have r2: "r2 = (case secretbox cp ?msg ?n2 k of
        Inl e \<Rightarrow> Inl e | Inr c \<Rightarrow> Inr (?n2 @ c))"
    unfolding encryptData_eq n by simp
  from second have "w2 = w1\<lparr>drawn := drawn w1 + 24,
      calls := calls w1 @ [Secretbox ?msg ?n2 k]\<rparr>"
    unfolding encryptData_eq n by simp
  with w1 have w2: "w2 = w\<lparr>drawn := drawn w + 48,
        calls := calls w @ [Secretbox ?msg ?n1 k, Secretbox ?msg ?n2 k]\<rparr>"
    by (simp add: a)
  have "r2 \<noteq> Inr c1"
  proof
    assume "r2 = Inr c1"
    with r2 obtain c' where "c1 = ?n2 @ c'" by (auto split: sum.splits)
    with c1 have "?n1 @ c = ?n2 @ c'" by simp
    then have "?n1 = ?n2" by (simp add: append_eq_append_conv)
    with differ show False by simp
  qed
  with t c w1 r2 w2 show ?thesis by simp
qed


lemma demo_encrypt:
  "fst (encryptData demo_provider ''T'' (replicate 32 224) demo_world) =
     Inr ([3, 10, 17, 24, 31, 38, 45, 52, 59, 66, 73, 80, 87, 94, 101, 108,
           115, 122, 129, 136, 143, 150, 157, 164] @ replicate 16 108 @ [34, 84, 34])"
  by (simp add: encryptData_def randomBytes_def Let_def nonceLength_def demo_defs
      upt_0_numeral upt_1_numeral logged_def)

theorem encryptData_fresh_nonce_witness:
  "fst (encryptData demo_provider ''T'' (replicate 32 224)
          (snd (encryptData demo_provider ''T'' (replicate 32 224) demo_world))) \<noteq>
   fst (encryptData demo_provider ''T'' (replicate 32 224) demo_world) \<and>
   drawn (snd (encryptData demo_provider ''T'' (replicate 32 224) demo_world)) = 24 \<and>
   drawn (snd (encryptData demo_provider ''T'' (replicate 32 224)
          (snd (encryptData demo_provider ''T'' (replicate 32 224) demo_world)))) = 48"
proof -
  let ?c1 = "[3, 10, 17, 24, 31, 38, 45, 52, 59, 66, 73, 80, 87, 94, 101, 108,
           115, 122, 129, 136, 143, 150, 157, 164] @ replicate 16 108 @ [34, 84, 34 :: 8 word]"
  let ?w1 = "snd (encryptData demo_provider ''T'' (replicate 32 224) demo_world)"
  let ?r2 = "fst (encryptData demo_provider ''T'' (replicate 32 224) ?w1)"
  let ?w2 = "snd (encryptData demo_provider ''T'' (replicate 32 224) ?w1)"
  have first: "encryptData demo_provider ''T'' (replicate 32 224) demo_world = (Inr ?c1, ?w1)"
    using demo_encrypt by (simp add: prod_eq_iff)
  have second: "encryptData demo_provider ''T'' (replicate 32 224) ?w1 = (?r2, ?w2)"
    by simp
  have differ: "map (entropy demo_world) [drawn demo_world..<drawn demo_world + 24] \<noteq>
      map (entropy demo_world) [drawn demo_world + 24..<drawn demo_world + 48]"
    by (simp add: demo_world_def upt_0_numeral)
  from encryptData_fresh_nonce [OF first second differ]
  have "?w1 = demo_world\<lparr>drawn := drawn demo_world + 24,
          calls := calls demo_world @
            [Secretbox (TextEncoder_encode demo_provider (JSON_stringify demo_provider ''T''))
               (take 24 ?c1) (replicate 32 224)]\<rparr>"
    and "?w2 = demo_world\<lparr>drawn := drawn demo_world + 48,
          calls := calls demo_world @
            [Secretbox (TextEncoder_encode demo_provider (JSON_stringify demo_provider ''T''))
               (take 24 ?c1) (replicate 32 224),
             Secretbox (TextEncoder_encode demo_provider (JSON_stringify demo_provider ''T''))
               (map (entropy demo_world) [drawn demo_world + 24..<drawn demo_world + 48])
               (replicate 32 224)]\<rparr>"
    and "?r2 \<noteq> Inr ?c1"
    by blast+
  then have "drawn ?w1 = 24" "drawn ?w2 = 48" "?r2 \<noteq> Inr ?c1"
    by (simp_all add: demo_world_def)
  with demo_encrypt show ?thesis by simp
qed

text \<open>
  C8, as the code has it. \<open>deriveKey\<close> checks neither the password nor the salt: its
  outcome is the outcome of the one call of \<open>argon2.hash\<close> on the encoded password and
  the salt, with time cost 3, memory cost 262144, hash length 32 and parallelism 1. It
  fails only where the library fails, with the library's error.
\<close>

theorem deriveKey_unchecked:
  "fst (deriveKey cp password salt w) =
     argon2_hash cp (TextEncoder_encode cp password) salt 3 262144 32 1"
  by (simp add: deriveKey_eq)

theorem deriveKey_counterexample:
  "fst (deriveKey demo_provider [] (replicate 16 7) demo_world) = Inr (replicate 32 112) \<and>
   fst (deriveKey demo_provider ''password'' (replicate 32 1) demo_world) = Inr (replicate 32 147)"
  by (simp add: deriveKey_eq demo_provider_def demo_argon2_def sum_list_replicate)

subsection \<open>The shape of a sealed package\<close>

lemma length_toString_radix_16:
  assumes "n < 256"
  shows "length (toString_radix 16 n) = (if n < 16 then 1 else 2)"
proof (cases "n < 16")
  case True
  then show ?thesis by (subst toString_radix.simps) simp
next
  case False
  with assms have "n div 16 < 16" by simp
  then have "length (toString_radix 16 (n div 16)) = 1"
    by (subst toString_radix.simps) simp
  with False show ?thesis by (subst toString_radix.simps) simp
qed

lemma length_hex_byte:
  "length (padStart 2 c (toString_radix 16 (unat (b :: 8 word)))) = 2"
proof -
  have "unat b < 256" using unsigned_less [of b] by simp
  then show ?thesis by (simp add: padStart_def length_toString_radix_16)
qed

lemma length_fingerprint: "length (fingerprint cp k) = 2 * length (subtle_digest cp k)"
  by (simp add: fingerprint_def Let_def length_concat o_def length_hex_byte sum_list_triv)

text \<open>
  C9. For every value and every password of 8 to 128 characters, sealing gives a package
  whose salt has 16 bytes, whose encrypted data has 24 bytes of nonce, then the bytes of
  the serialized value, then 16 bytes of authenticator, and whose key hash is there: the
  64 hexadecimal digits of a 32-byte digest. The libraries are assumed to keep their
  contracts.
\<close>

theorem sealed_package_shape:
  assumes a: "argon2_contract cp" and s: "secretbox_contract cp" and g: "digest_contract cp"
    and p: "8 \<le> length P" "length P \<le> 128"
  shows "\<exists>pkg w1. createEncryptedSurvey cp V P w = (Inr pkg, w1) \<and>
           length (es_salt pkg) = 16 \<and>
           length (es_encryptedData pkg) =
             24 + length (TextEncoder_encode cp (JSON_stringify cp V)) + 16 \<and>
           length (es_keyHash pkg) = 64"
proof (rule sealing_succeeds [OF a s p, of V w], goal_cases)
  case (1 pkg w1 k c)
  from g have "length (fingerprint cp k) = 64"
    by (simp add: length_fingerprint digest_contract_def)
  with "1" show ?case
    by (simp add: Array_from_def length_randomBytes nonceLength_def)
qed

theorem sealed_package_shape_witness:
  "createEncryptedSurvey demo_provider ''T'' ''correct-horse-battery'' demo_world =
     (Inr demo_package,
      snd (createEncryptedSurvey demo_provider ''T'' ''correct-horse-battery'' demo_world)) \<and>
   length (es_salt demo_package) = 16 \<and>
   length (es_encryptedData demo_package) =
     24 + length (TextEncoder_encode demo_provider (JSON_stringify demo_provider ''T'')) + 16 \<and>
   length (es_keyHash demo_package) = 64"
proof -
  have seal: "createEncryptedSurvey demo_provider ''T'' ''correct-horse-battery'' demo_world =
      (Inr demo_package,
       snd (createEncryptedSurvey demo_provider ''T'' ''correct-horse-battery'' demo_world))"
    using demo_seal by (simp add: prod_eq_iff)
  from sealed_package_shape [OF demo_argon2_contract demo_secretbox_contract
      demo_digest_contract, of "''correct-horse-battery''" "''T''" demo_world] seal
  show ?thesis by auto
qed

text \<open>
  C10. Short input. For every key and every input shorter than one nonce (24 bytes),
  \<open>decryptData\<close> fails with the error \<open>Invalid encrypted data format\<close>, and it does so
  before anything else: the state comes back unchanged, so no library call was made.
\<close>

theorem decryptData_short_input:
  "length encryptedData < 24 \<Longrightarrow>
   decryptData cp encryptedData k w = (Inl (Error ''Invalid encrypted data format''), w)"
  by (simp add: decryptData_def nonceLength_def)

theorem decryptData_short_input_witness:
  "length [1, 2, 3 :: 8 word] < 24 \<and>
   decryptData demo_provider [1, 2, 3] (replicate 32 224) demo_world =
     (Inl (Error ''Invalid encrypted data format''), demo_world)"
  using decryptData_short_input [of "[1, 2, 3]" demo_provider "replicate 32 224" demo_world]
  by simp

section \<open>The claims about identifiers\<close>















section \<open>The claims about the worker\<close>

lemma find_by_key:
  "distinct (map f xs) \<Longrightarrow> x \<in> set xs \<Longrightarrow> find (\<lambda>r. f r = f x) xs = Some x"
  by (induction xs) (auto simp: rev_image_eqI)

lemma route_of_get_survey:
  assumes "surveyId \<noteq> []" "list_all alnum surveyId"
  shows "route_of ''GET'' (''/api/survey/'' @ surveyId) = GetSurvey surveyId"
  using assms by (simp add: route_of_def startsWith_def match_id_def Let_def)

lemmas handler_defs =
  handleGetResponses_def handleGetResponsesByAnalysisId_def handleDeleteSurvey_def
  handleDeleteSurveyByAnalysisId_def missing_def errorResponse_def apiResponse_def

lemmas db_defs =
  getSurveyResponses_def getSurveyResponsesByAnalysisId_def getSurveyStats_def
  getSurveyStatsByAnalysisId_def getSurvey_def getSurveyByAnalysisId_def
  deleteSurvey_def deleteSurveyByAnalysisId_def run_delete_responses_def run_delete_survey_def
  order_by_asc_def order_by_desc_def

lemma handleRequest_get_survey:
  assumes "surveyId \<noteq> []" "list_all alnum surveyId"
  shows "handleRequest \<lparr>rq_method = ''GET'', rq_path = ''/api/survey/'' @ surveyId,
                        rq_keyHash = keyHash\<rparr> now db
         = Some (handleGetSurvey surveyId db, db)"
proof -
  have "route_of ''GET'' (''/api/survey/'' @ surveyId) = GetSurvey surveyId"
    using assms by (rule route_of_get_survey)
  then show ?thesis unfolding handleRequest_def by simp
qed

lemmas demo_db_defs = demo_db_def demo_row_def response_of_row_def Array_from_def
  getResponseCount_def truthy_def Let_def

text \<open>
  C5. For every stored survey (the primary key \<open>id\<close> is unique), reading the survey
  shell by its response-scope id answers 200 with a shell whose \<open>keyHash\<close> is the
  stored \<open>creator_key_hash\<close>; that value passes the check of the creator-only listing.
  The read needs no credential: when the id is a non-empty run of letters and digits,
  the router serves \<open>GET /api/survey/:id\<close> with no \<open>keyHash\<close> parameter at all.
\<close>

theorem survey_shell_exposes_keyHash:
  assumes "row \<in> set (surveys db)" and "distinct (map row_id (surveys db))"
  shows "\<exists>shell. handleGetSurvey (row_id row) db = \<lparr>status = 200, body = SurveyData shell\<rparr> \<and>
           sh_keyHash shell = row_creator_key_hash row \<and>
           (\<exists>rs. getSurveyResponses db (row_id row) (sh_keyHash shell) = Inr rs) \<and>
           (row_id row \<noteq> [] \<and> list_all alnum (row_id row) \<longrightarrow>
              handleRequest \<lparr>rq_method = ''GET'', rq_path = ''/api/survey/'' @ row_id row,
                             rq_keyHash = None\<rparr> now db
              = Some (\<lparr>status = 200, body = SurveyData shell\<rparr>, db))"
proof -
  let ?shell = "shell_of (the (getSurvey db (row_id row)))"
  from find_by_key [OF assms(2) assms(1)]
  have f: "find (\<lambda>r. row_id r = row_id row) (surveys db) = Some row" .
  then have a: "handleGetSurvey (row_id row) db = \<lparr>status = 200, body = SurveyData ?shell\<rparr>"
    by (simp add: handleGetSurvey_def getSurvey_def apiResponse_def)
  from f have b: "sh_keyHash ?shell = row_creator_key_hash row"
    by (simp add: getSurvey_def shell_of_def)
  from f have c: "\<exists>rs. getSurveyResponses db (row_id row) (sh_keyHash ?shell) = Inr rs"
    by (simp add: getSurvey_def shell_of_def getSurveyResponses_def)
  have d: "row_id row \<noteq> [] \<and> list_all alnum (row_id row) \<longrightarrow>
      handleRequest \<lparr>rq_method = ''GET'', rq_path = ''/api/survey/'' @ row_id row,
                     rq_keyHash = None\<rparr> now db
      = Some (\<lparr>status = 200, body = SurveyData ?shell\<rparr>, db)"
    using handleRequest_get_survey [of "row_id row" None now db] a by auto
  from a b c d show ?thesis by blast
qed

theorem survey_shell_exposes_keyHash_witness:
  "demo_row \<in> set (surveys demo_db) \<and> distinct (map row_id (surveys demo_db)) \<and>
   handleRequest \<lparr>rq_method = ''GET'', rq_path = ''/api/survey/SURVEY01'', rq_keyHash = None\<rparr>
       1700000001000 demo_db
     = Some (\<lparr>status = 200,
              body = SurveyData
                \<lparr>sh_id = ''SURVEY01'', sh_salt = [7, 7, 7, 7, 7, 7, 7, 7, 7, 7, 7, 7, 7, 7, 7, 7],
                 sh_encryptedData = [1, 2, 3], sh_keyHash = ''c0ffee'',
                 sh_createdAt = 1700000000000, sh_expiresAt = None,
                 sh_maxResponses = None\<rparr>\<rparr>, demo_db) \<and>
   row_creator_key_hash demo_row = ''c0ffee''"
proof -
  have h1: "demo_row \<in> set (surveys demo_db)" by (simp add: demo_db_def)
  have h2: "distinct (map row_id (surveys demo_db))" by (simp add: demo_db_def)
  have h3: "row_id demo_row = ''SURVEY01''" "row_creator_key_hash demo_row = ''c0ffee''"
    by (simp_all add: demo_row_def)
  have h4: "shell_of (the (getSurvey demo_db ''SURVEY01'')) =
      \<lparr>sh_id = ''SURVEY01'', sh_salt = [7, 7, 7, 7, 7, 7, 7, 7, 7, 7, 7, 7, 7, 7, 7, 7],
       sh_encryptedData = [1, 2, 3], sh_keyHash = ''c0ffee'',
       sh_createdAt = 1700000000000, sh_expiresAt = None, sh_maxResponses = None\<rparr>"
    by (simp add: getSurvey_def shell_of_def demo_db_defs replicate_numeral_Cons)
  from survey_shell_exposes_keyHash [OF h1 h2, of 1700000001000] h1 h2 h3 h4
  show ?thesis
    by (auto simp: alnum_def handleGetSurvey_def getSurvey_def apiResponse_def demo_db_def)
qed

subsection \<open>The creator-only routes\<close>

text \<open>Rows with equal keys stay in the order of their insertion, in both directions.\<close>

lemma order_by_ties:
  "order_by_asc fst [(1 :: nat, ''a''), (2, ''b''), (1, ''c''), (2, ''d'')] =
     [(1, ''a''), (1, ''c''), (2, ''b''), (2, ''d'')]"
  "order_by_desc fst [(1 :: nat, ''a''), (2, ''b''), (1, ''c''), (2, ''d'')] =
     [(2, ''b''), (2, ''d''), (1, ''a''), (1, ''c'')]"
  by (simp_all add: order_by_asc_def order_by_desc_def)

lemma match_id_append:
  "match_id pre suf (pre @ rest) =
     (let mid = take (length rest - length suf) rest
      in if rest = mid @ suf \<and> mid \<noteq> [] \<and> list_all alnum mid then Some mid else None)"
  by (simp add: match_id_def Let_def)

lemma not_alnum_slash: "\<not> alnum (CHR ''/'')"
  by (simp add: alnum_def)

lemma route_list_by_id:
  assumes "ident \<noteq> []" "list_all alnum ident"
  shows "route_of ''GET'' (''/api/survey/'' @ ident @ ''/responses'') = GetResponses ident"
proof -
  have 1: "match_id ''/api/survey/'' [] (''/api/survey/'' @ ident @ ''/responses'') = None"
    unfolding match_id_append by (simp add: not_alnum_slash)
  have 2: "match_id ''/api/survey/'' ''/responses'' (''/api/survey/'' @ ident @ ''/responses'')
      = Some ident"
    unfolding match_id_append using assms by simp
  have 3: "startsWith (''/api/survey/'' @ ident @ ''/responses'') ''/api/''"
    by (simp add: startsWith_def)
  show ?thesis unfolding route_of_def Let_def 1 2 using 3 by simp
qed

lemma route_delete_by_id:
  assumes "ident \<noteq> []" "list_all alnum ident"
  shows "route_of ''DELETE'' (''/api/survey/'' @ ident) = DeleteSurvey ident"
proof -
  have 1: "match_id ''/api/survey/'' [] (''/api/survey/'' @ ident) = Some ident"
    unfolding match_id_append using assms by simp
  have 3: "startsWith (''/api/survey/'' @ ident) ''/api/''"
    by (simp add: startsWith_def)
  show ?thesis unfolding route_of_def Let_def 1 using 3 by simp
qed

lemma route_list_by_analysis:
  assumes "ident \<noteq> []" "list_all alnum ident"
  shows "route_of ''GET'' (''/api/analysis/'' @ ident @ ''/responses'')
         = GetResponsesByAnalysisId ident"
proof -
  let ?p = "''/api/analysis/'' @ ident @ ''/responses''"
  have 1: "match_id ''/api/survey/'' [] ?p = None"
    by (simp add: match_id_def Let_def)
  have 2: "match_id ''/api/survey/'' ''/responses'' ?p = None"
    by (simp add: match_id_def Let_def)
  have 4: "match_id ''/api/analysis/'' ''/survey'' ?p = None"
    unfolding match_id_append by (simp add: not_alnum_slash)
  have 5: "match_id ''/api/analysis/'' ''/responses'' ?p = Some ident"
    unfolding match_id_append using assms by simp
  have 3: "startsWith ?p ''/api/''"
    by (simp add: startsWith_def)
  show ?thesis unfolding route_of_def Let_def 1 2 4 5 using 3 by simp
qed

lemma route_delete_by_analysis:
  assumes "ident \<noteq> []" "list_all alnum ident"
  shows "route_of ''DELETE'' (''/api/analysis/'' @ ident) = DeleteSurveyByAnalysisId ident"
proof -
  have 0: "match_id ''/api/survey/'' [] (''/api/analysis/'' @ ident) = None"
    by (simp add: match_id_def Let_def)
  have 1: "match_id ''/api/analysis/'' [] (''/api/analysis/'' @ ident) = Some ident"
    unfolding match_id_append using assms by simp
  have 3: "startsWith (''/api/analysis/'' @ ident) ''/api/''"
    by (simp add: startsWith_def)
  show ?thesis unfolding route_of_def Let_def 0 1 using 3 by simp
qed


lemma failure_messages:
  "\<not> includes_str ''Survey not found'' ''Unauthorized''"
  "includes_str ''Survey not found'' ''not found''"
  "includes_str ''Unauthorized - incorrect creator key'' ''Unauthorized''"
  "includes_str ''Unauthorized - only survey creator can delete'' ''Unauthorized''"
  by simp_all

lemma handleRequest_list_by_id:
  assumes "ident \<noteq> []" "list_all alnum ident"
  shows "handleRequest \<lparr>rq_method = ''GET'', rq_path = ''/api/survey/'' @ ident @ ''/responses'',
                        rq_keyHash = keyHash\<rparr> now db
         = Some (handleGetResponses ident keyHash now db, db)"
  unfolding handleRequest_def using route_list_by_id [OF assms] by simp

lemma handleRequest_delete_by_id:
  assumes "ident \<noteq> []" "list_all alnum ident"
  shows "handleRequest \<lparr>rq_method = ''DELETE'', rq_path = ''/api/survey/'' @ ident,
                        rq_keyHash = keyHash\<rparr> now db
         = Some (handleDeleteSurvey ident keyHash db)"
  unfolding handleRequest_def using route_delete_by_id [OF assms] by simp

lemma handleRequest_list_by_analysis:
  assumes "ident \<noteq> []" "list_all alnum ident"
  shows "handleRequest \<lparr>rq_method = ''GET'',
                        rq_path = ''/api/analysis/'' @ ident @ ''/responses'',
                        rq_keyHash = keyHash\<rparr> now db
         = Some (handleGetResponsesByAnalysisId ident keyHash now db, db)"
  unfolding handleRequest_def using route_list_by_analysis [OF assms] by simp

lemma handleRequest_delete_by_analysis:
  assumes "ident \<noteq> []" "list_all alnum ident"
  shows "handleRequest \<lparr>rq_method = ''DELETE'', rq_path = ''/api/analysis/'' @ ident,
                        rq_keyHash = keyHash\<rparr> now db
         = Some (handleDeleteSurveyByAnalysisId ident keyHash db)"
  unfolding handleRequest_def using route_delete_by_analysis [OF assms] by simp

text \<open>The four creator-only handlers, case by case.\<close>

lemma handleGetResponses_cases:
  "handleGetResponses surveyId keyHash now db =
     (case find (\<lambda>r. row_id r = surveyId) (surveys db) of
        None \<Rightarrow>
          if keyHash = None \<or> keyHash = Some []
          then \<lparr>status = 401, body = Failure ''Missing authorization key hash''\<rparr>
          else \<lparr>status = 500, body = Failure ''Survey not found''\<rparr>
      | Some row \<Rightarrow>
          if keyHash = Some (row_creator_key_hash row) \<and> row_creator_key_hash row \<noteq> []
          then
            \<lparr>status = 200,
             body = ResponsesData
               (map response_of_row (order_by_asc resp_submitted_at
                  (filter (\<lambda>r. resp_survey_id r = surveyId) (responses db))))
               \<lparr>st_surveyId = surveyId, st_analysisId = None,
                st_responseCount =
                  length (filter (\<lambda>r. resp_survey_id r = surveyId) (responses db)),
                st_createdAt = row_created_at row,
                st_expiresAt = row_expires_at row,
                st_maxResponses = row_max_responses row,
                st_isExpired = (truthy (row_expires_at row) \<and> now > the (row_expires_at row)),
                st_isAtLimit = (truthy (row_max_responses row) \<and>
                  length (filter (\<lambda>r. resp_survey_id r = surveyId) (responses db))
                    \<ge> the (row_max_responses row))\<rparr>\<rparr>
          else
            \<lparr>status = 401,
             body = Failure (if keyHash = None \<or> keyHash = Some []
                             then ''Missing authorization key hash''
                             else ''Unauthorized - incorrect creator key'')\<rparr>)"
proof (cases keyHash)
  case None
  then show ?thesis by (simp add: handler_defs split: option.splits)
next
  case h: (Some h)
  show ?thesis
  proof (cases "find (\<lambda>r. row_id r = surveyId) (surveys db)")
    case None
    with h show ?thesis
      by (simp add: handler_defs getSurveyResponses_def getSurvey_def failure_messages
          del: includes_str.simps)
  next
    case (Some row)
    with h show ?thesis
      by (auto simp add: handler_defs getSurveyResponses_def getSurveyStats_def getSurvey_def
          getResponseCount_def failure_messages Let_def
          simp del: includes_str.simps)
  qed
qed

lemma handleDeleteSurvey_cases:
  "handleDeleteSurvey surveyId keyHash db =
     (case find (\<lambda>r. row_id r = surveyId) (surveys db) of
        None \<Rightarrow>
          (\<lparr>status = 401,
            body = Failure (if keyHash = None \<or> keyHash = Some []
                            then ''Missing authorization key hash''
                            else ''Survey not found'')\<rparr>, db)
      | Some row \<Rightarrow>
          if keyHash = Some (row_creator_key_hash row) \<and> row_creator_key_hash row \<noteq> []
          then
            (\<lparr>status = 200,
              body = DeletionData \<lparr>deletedSurvey = True, deletedResponses = None\<rparr>\<rparr>,
             db\<lparr>responses := filter (\<lambda>r. resp_survey_id r \<noteq> surveyId) (responses db),
                surveys := filter (\<lambda>r. row_id r \<noteq> surveyId) (surveys db)\<rparr>)
          else
            (\<lparr>status = 401,
              body = Failure (if keyHash = None \<or> keyHash = Some []
                              then ''Missing authorization key hash''
                              else ''Unauthorized - only survey creator can delete'')\<rparr>, db))"
proof (cases keyHash)
  case None
  then show ?thesis by (simp add: handler_defs split: option.splits)
next
  case h: (Some h)
  show ?thesis
  proof (cases "find (\<lambda>r. row_id r = surveyId) (surveys db)")
    case None
    with h show ?thesis
      by (simp add: handler_defs deleteSurvey_def failure_messages
          del: includes_str.simps)
  next
    case (Some row)
    with h show ?thesis
      by (auto simp add: handler_defs deleteSurvey_def run_delete_responses_def
          run_delete_survey_def failure_messages Let_def
          simp del: includes_str.simps)
  qed
qed

lemma handleGetResponsesByAnalysisId_cases:
  "handleGetResponsesByAnalysisId analysisId keyHash now db =
     (case find (\<lambda>r. row_analysis_id r = Some analysisId) (surveys db) of
        None \<Rightarrow>
          if keyHash = None \<or> keyHash = Some []
          then \<lparr>status = 401, body = Failure ''Missing authorization key hash''\<rparr>
          else \<lparr>status = 500, body = Failure ''Survey not found''\<rparr>
      | Some row \<Rightarrow>
          if keyHash = Some (row_creator_key_hash row) \<and> row_creator_key_hash row \<noteq> []
          then
            \<lparr>status = 200,
             body = ResponsesData
               (map response_of_row (order_by_desc resp_submitted_at
                  (filter (\<lambda>r. resp_survey_id r = row_id row) (responses db))))
               \<lparr>st_surveyId = row_id row, st_analysisId = row_analysis_id row,
                st_responseCount =
                  length (filter (\<lambda>r. resp_survey_id r = row_id row) (responses db)),
                st_createdAt = row_created_at row,
                st_expiresAt = row_expires_at row,
                st_maxResponses = row_max_responses row,
                st_isExpired = (truthy (row_expires_at row) \<and> now > the (row_expires_at row)),
                st_isAtLimit = (truthy (row_max_responses row) \<and>
                  length (filter (\<lambda>r. resp_survey_id r = row_id row) (responses db))
                    \<ge> the (row_max_responses row))\<rparr>\<rparr>
          else
            \<lparr>status = 401,
             body = Failure (if keyHash = None \<or> keyHash = Some []
                             then ''Missing authorization key hash''
                             else ''Unauthorized - incorrect creator key'')\<rparr>)"
proof (cases keyHash)
  case None
  then show ?thesis by (simp add: handler_defs split: option.splits)
next
  case h: (Some h)
  show ?thesis
  proof (cases "find (\<lambda>r. row_analysis_id r = Some analysisId) (surveys db)")
    case None
    with h show ?thesis
      by (simp add: handler_defs getSurveyResponsesByAnalysisId_def getSurveyByAnalysisId_def failure_messages
          del: includes_str.simps)
  next
    case (Some row)
    with h show ?thesis
      by (auto simp add: handler_defs getSurveyResponsesByAnalysisId_def getSurveyStatsByAnalysisId_def
          getSurveyByAnalysisId_def getResponseCount_def failure_messages Let_def
          simp del: includes_str.simps)
  qed
qed

lemma handleDeleteSurveyByAnalysisId_cases:
  "handleDeleteSurveyByAnalysisId analysisId keyHash db =
     (case find (\<lambda>r. row_analysis_id r = Some analysisId) (surveys db) of
        None \<Rightarrow>
          (\<lparr>status = 401,
            body = Failure (if keyHash = None \<or> keyHash = Some []
                            then ''Missing authorization key hash''
                            else ''Survey not found'')\<rparr>, db)
      | Some row \<Rightarrow>
          if keyHash = Some (row_creator_key_hash row) \<and> row_creator_key_hash row \<noteq> []
          then
            (\<lparr>status = 200,
              body = DeletionData \<lparr>deletedSurvey = True, deletedResponses = None\<rparr>\<rparr>,
             db\<lparr>responses := filter (\<lambda>r. resp_survey_id r \<noteq> row_id row) (responses db),
                surveys := filter (\<lambda>r. row_id r \<noteq> row_id row) (surveys db)\<rparr>)
          else
            (\<lparr>status = 401,
              body = Failure (if keyHash = None \<or> keyHash = Some []
                              then ''Missing authorization key hash''
                              else ''Unauthorized - only survey creator can delete'')\<rparr>, db))"
proof (cases keyHash)
  case None
  then show ?thesis by (simp add: handler_defs split: option.splits)
next
  case h: (Some h)
  show ?thesis
  proof (cases "find (\<lambda>r. row_analysis_id r = Some analysisId) (surveys db)")
    case None
    with h show ?thesis
      by (simp add: handler_defs deleteSurveyByAnalysisId_def failure_messages
          del: includes_str.simps)
  next
    case (Some row)
    with h show ?thesis
      by (auto simp add: handler_defs deleteSurveyByAnalysisId_def run_delete_responses_def
          run_delete_survey_def failure_messages Let_def
          simp del: includes_str.simps)
  qed
qed

text \<open>
  C3, as the code has it. On each of the four creator-only routes the request is answered
  with status 200 exactly when a survey is stored under its identifier and the request
  supplies that survey's non-empty key hash. Then a listing carries the survey's
  responses and statistics and leaves the database as it was, and a deletion removes
  the survey's row and its responses. Otherwise the answer is a failure with status 401
  or 500 and the database is unchanged. On the \<open>/api/analysis\<close> routes the identifier
  is the analysis-scope id; on the \<open>/api/survey\<close> routes, kept for backwards
  compatibility, it is the response-scope id.
\<close>

theorem creator_only_guard:
  assumes s: "surveyId \<noteq> []" "list_all alnum surveyId"
    and a: "analysisId \<noteq> []" "list_all alnum analysisId"
  shows
   "handleRequest \<lparr>rq_method = ''GET'',
                   rq_path = ''/api/survey/'' @ surveyId @ ''/responses'',
                   rq_keyHash = keyHash\<rparr> now db =
     Some ((case find (\<lambda>r. row_id r = surveyId) (surveys db) of
        None \<Rightarrow>
          if keyHash = None \<or> keyHash = Some []
          then \<lparr>status = 401, body = Failure ''Missing authorization key hash''\<rparr>
          else \<lparr>status = 500, body = Failure ''Survey not found''\<rparr>
      | Some row \<Rightarrow>
          if keyHash = Some (row_creator_key_hash row) \<and> row_creator_key_hash row \<noteq> []
          then
            \<lparr>status = 200,
             body = ResponsesData
               (map response_of_row (order_by_asc resp_submitted_at
                  (filter (\<lambda>r. resp_survey_id r = surveyId) (responses db))))
               \<lparr>st_surveyId = surveyId, st_analysisId = None,
                st_responseCount =
                  length (filter (\<lambda>r. resp_survey_id r = surveyId) (responses db)),
                st_createdAt = row_created_at row,
                st_expiresAt = row_expires_at row,
                st_maxResponses = row_max_responses row,
                st_isExpired = (truthy (row_expires_at row) \<and> now > the (row_expires_at row)),
                st_isAtLimit = (truthy (row_max_responses row) \<and>
                  length (filter (\<lambda>r. resp_survey_id r = surveyId) (responses db))
                    \<ge> the (row_max_responses row))\<rparr>\<rparr>
          else
            \<lparr>status = 401,
             body = Failure (if keyHash = None \<or> keyHash = Some []
                             then ''Missing authorization key hash''
                             else ''Unauthorized - incorrect creator key'')\<rparr>),
           db) \<and>
    handleRequest \<lparr>rq_method = ''DELETE'', rq_path = ''/api/survey/'' @ surveyId,
                   rq_keyHash = keyHash\<rparr> now db =
     Some (case find (\<lambda>r. row_id r = surveyId) (surveys db) of
        None \<Rightarrow>
          (\<lparr>status = 401,
            body = Failure (if keyHash = None \<or> keyHash = Some []
                            then ''Missing authorization key hash''
                            else ''Survey not found'')\<rparr>, db)
      | Some row \<Rightarrow>
          if keyHash = Some (row_creator_key_hash row) \<and> row_creator_key_hash row \<noteq> []
          then
            (\<lparr>status = 200,
              body = DeletionData \<lparr>deletedSurvey = True, deletedResponses = None\<rparr>\<rparr>,
             db\<lparr>responses := filter (\<lambda>r. resp_survey_id r \<noteq> surveyId) (responses db),
                surveys := filter (\<lambda>r. row_id r \<noteq> surveyId) (surveys db)\<rparr>)
          else
            (\<lparr>status = 401,
              body = Failure (if keyHash = None \<or> keyHash = Some []
                              then ''Missing authorization key hash''
                              else ''Unauthorized - only survey creator can delete'')\<rparr>, db)) \<and>
    handleRequest \<lparr>rq_method = ''GET'',
                   rq_path = ''/api/analysis/'' @ analysisId @ ''/responses'',
                   rq_keyHash = keyHash\<rparr> now db =
     Some ((case find (\<lambda>r. row_analysis_id r = Some analysisId) (surveys db) of
        None \<Rightarrow>
          if keyHash = None \<or> keyHash = Some []
          then \<lparr>status = 401, body = Failure ''Missing authorization key hash''\<rparr>
          else \<lparr>status = 500, body = Failure ''Survey not found''\<rparr>
      | Some row \<Rightarrow>
          if keyHash = Some (row_creator_key_hash row) \<and> row_creator_key_hash row \<noteq> []
          then
            \<lparr>status = 200,
             body = ResponsesData
               (map response_of_row (order_by_desc resp_submitted_at
                  (filter (\<lambda>r. resp_survey_id r = row_id row) (responses db))))
               \<lparr>st_surveyId = row_id row, st_analysisId = row_analysis_id row,
                st_responseCount =
                  length (filter (\<lambda>r. resp_survey_id r = row_id row) (responses db)),
                st_createdAt = row_created_at row,
                st_expiresAt = row_expires_at row,
                st_maxResponses = row_max_responses row,
                st_isExpired = (truthy (row_expires_at row) \<and> now > the (row_expires_at row)),
                st_isAtLimit = (truthy (row_max_responses row) \<and>
                  length (filter (\<lambda>r. resp_survey_id r = row_id row) (responses db))
                    \<ge> the (row_max_responses row))\<rparr>\<rparr>
          else
            \<lparr>status = 401,
             body = Failure (if keyHash = None \<or> keyHash = Some []
                             then ''Missing authorization key hash''
                             else ''Unauthorized - incorrect creator key'')\<rparr>),
           db) \<and>
    handleRequest \<lparr>rq_method = ''DELETE'', rq_path = ''/api/analysis/'' @ analysisId,
                   rq_keyHash = keyHash\<rparr> now db =
     Some (case find (\<lambda>r. row_analysis_id r = Some analysisId) (surveys db) of
        None \<Rightarrow>
          (\<lparr>status = 401,
            body = Failure (if keyHash = None \<or> keyHash = Some []
                            then ''Missing authorization key hash''
                            else ''Survey not found'')\<rparr>, db)
      | Some row \<Rightarrow>
          if keyHash = Some (row_creator_key_hash row) \<and> row_creator_key_hash row \<noteq> []
          then
            (\<lparr>status = 200,
              body = DeletionData \<lparr>deletedSurvey = True, deletedResponses = None\<rparr>\<rparr>,
             db\<lparr>responses := filter (\<lambda>r. resp_survey_id r \<noteq> row_id row) (responses db),
                surveys := filter (\<lambda>r. row_id r \<noteq> row_id row) (surveys db)\<rparr>)
          else
            (\<lparr>status = 401,
              body = Failure (if keyHash = None \<or> keyHash = Some []
                              then ''Missing authorization key hash''
                              else ''Unauthorized - only survey creator can delete'')\<rparr>, db))"
  unfolding handleRequest_list_by_id [OF s] handleRequest_delete_by_id [OF s]
    handleRequest_list_by_analysis [OF a] handleRequest_delete_by_analysis [OF a]
    handleGetResponses_cases handleDeleteSurvey_cases
    handleGetResponsesByAnalysisId_cases handleDeleteSurveyByAnalysisId_cases
  by simp

theorem creator_only_guard_witness:
  "handleRequest \<lparr>rq_method = ''GET'', rq_path = ''/api/survey/SURVEY01/responses'',
                  rq_keyHash = Some ''c0ffee''\<rparr> 1700000001000 demo_db
     = Some (\<lparr>status = 200,
              body = ResponsesData
                [\<lparr>rv_id = ''R1'', rv_answers = [9, 9], rv_submittedAt = 1700000000500\<rparr>]
                \<lparr>st_surveyId = ''SURVEY01'', st_analysisId = None, st_responseCount = 1,
                 st_createdAt = 1700000000000, st_expiresAt = None, st_maxResponses = None,
                 st_isExpired = False, st_isAtLimit = False\<rparr>\<rparr>, demo_db) \<and>
   handleRequest \<lparr>rq_method = ''GET'', rq_path = ''/api/analysis/ANALYSIS01/responses'',
                  rq_keyHash = Some ''c0ffee''\<rparr> 1700000001000 demo_db
     = Some (\<lparr>status = 200,
              body = ResponsesData
                [\<lparr>rv_id = ''R1'', rv_answers = [9, 9], rv_submittedAt = 1700000000500\<rparr>]
                \<lparr>st_surveyId = ''SURVEY01'', st_analysisId = Some ''ANALYSIS01'',
                 st_responseCount = 1,
                 st_createdAt = 1700000000000, st_expiresAt = None, st_maxResponses = None,
                 st_isExpired = False, st_isAtLimit = False\<rparr>\<rparr>, demo_db) \<and>
   handleRequest \<lparr>rq_method = ''DELETE'', rq_path = ''/api/analysis/ANALYSIS01'',
                  rq_keyHash = Some ''c0ffee''\<rparr> 1700000001000 demo_db
     = Some (\<lparr>status = 200,
              body = DeletionData \<lparr>deletedSurvey = True, deletedResponses = None\<rparr>\<rparr>,
             \<lparr>surveys = [], responses = []\<rparr>) \<and>
   handleRequest \<lparr>rq_method = ''DELETE'', rq_path = ''/api/survey/SURVEY01'',
                  rq_keyHash = Some ''decaf''\<rparr> 1700000001000 demo_db
     = Some (\<lparr>status = 401,
              body = Failure ''Unauthorized - only survey creator can delete''\<rparr>, demo_db)"
proof -
  have s: "''SURVEY01'' \<noteq> []" "list_all alnum ''SURVEY01''" by (simp_all add: alnum_def)
  have a: "''ANALYSIS01'' \<noteq> []" "list_all alnum ''ANALYSIS01''" by (simp_all add: alnum_def)
  from creator_only_guard [OF s a, of "Some ''c0ffee''" 1700000001000 demo_db]
    creator_only_guard [OF s a, of "Some ''decaf''" 1700000001000 demo_db]
  show ?thesis
    by (simp add: demo_db_defs order_by_asc_def order_by_desc_def)
qed

theorem response_scope_counterexample:
  "handleRequest \<lparr>rq_method = ''GET'', rq_path = ''/api/survey/SURVEY01/responses'',
                  rq_keyHash = Some ''c0ffee''\<rparr> 1700000001000 demo_db
     = Some (\<lparr>status = 200,
              body = ResponsesData
                [\<lparr>rv_id = ''R1'', rv_answers = [9, 9], rv_submittedAt = 1700000000500\<rparr>]
                \<lparr>st_surveyId = ''SURVEY01'', st_analysisId = None, st_responseCount = 1,
                 st_createdAt = 1700000000000, st_expiresAt = None, st_maxResponses = None,
                 st_isExpired = False, st_isAtLimit = False\<rparr>\<rparr>, demo_db) \<and>
   handleRequest \<lparr>rq_method = ''DELETE'', rq_path = ''/api/survey/SURVEY01'',
                  rq_keyHash = Some ''c0ffee''\<rparr> 1700000001000 demo_db
     = Some (\<lparr>status = 200,
              body = DeletionData \<lparr>deletedSurvey = True, deletedResponses = None\<rparr>\<rparr>,
             \<lparr>surveys = [], responses = []\<rparr>) \<and>
   row_id demo_row = ''SURVEY01'' \<and> row_analysis_id demo_row = Some ''ANALYSIS01''"
  by (simp add: handleRequest_def route_of_def startsWith_def match_id_def alnum_def
      handler_defs getSurveyResponses_def getSurveyStats_def getSurvey_def deleteSurvey_def
      run_delete_responses_def run_delete_survey_def order_by_asc_def demo_db_defs)

end
